theory Spec2Isabelle
  imports Main "HOL-Library.AList"
begin

section \<open>Coordinate mapper\<close>

text \<open>
  The service converts between 1-based (line, column) pairs and 0-based offsets into a
  text. Both directions cut the text with \<^verbatim>\<open>content.split("\n")\<close>. A JavaScript
  string is a sequence of code units; the model is a list of characters, and nothing below
  depends on which characters there are besides the separator.
\<close>

definition newline :: char where
  "newline = CHR 0x0A"

text \<open>
  \<^verbatim>\<open>String.prototype.split\<close> with a one-character separator: the pieces between the
  separators, so a text with k separators has k + 1 pieces and the empty text has one.
\<close>

fun js_split :: "'a \<Rightarrow> 'a list \<Rightarrow> 'a list list" where
  "js_split sep [] = [[]]"
| "js_split sep (c # cs) =
     (if c = sep then [] # js_split sep cs
      else (case js_split sep cs of
              l # ls \<Rightarrow> (c # l) # ls
            | [] \<Rightarrow> [[c]]))"

text \<open>
  \<^verbatim>\<open>
  export function positionToOffset(content, line, column) {
    const lines = content.split("\n");
    let offset = 0;
    for (let i = 0; i < line - 1 && i < lines.length; i++) {
      offset += lines[i].length + 1; // +1 for newline
    }
    offset += column - 1;
    return offset;
  }
  \<close>
  The loop is the recursion on \<open>i\<close>; line and column are integers (the tools accept
  positive integers, the function itself accepts any).
\<close>

function positionToOffset_loop :: "string list \<Rightarrow> int \<Rightarrow> nat \<Rightarrow> int \<Rightarrow> int" where
  "positionToOffset_loop lines ln i offset =
     (if int i < ln - 1 \<and> i < length lines
      then positionToOffset_loop lines ln (Suc i) (offset + (int (length (lines ! i)) + 1))
      else offset)"
  by pat_completeness auto
termination
  by (relation "measure (\<lambda>(lines, ln, i, offset). length lines - i)") auto

declare positionToOffset_loop.simps [simp del]

definition positionToOffset :: "string \<Rightarrow> int \<Rightarrow> int \<Rightarrow> int" where
  "positionToOffset content ln col =
     positionToOffset_loop (js_split newline content) ln 0 0 + (col - 1)"

text \<open>
  \<^verbatim>\<open>
  export function offsetToPosition(content, offset) {
    const lines = content.split("\n");
    let currentOffset = 0;
    for (let i = 0; i < lines.length; i++) {
      const lineLength = lines[i].length + 1;
      if (currentOffset + lineLength > offset) {
        return { line: i + 1, column: offset - currentOffset + 1 };
      }
      currentOffset += lineLength;
    }
    return { line: lines.length, column: 1 };
  }
  \<close>
\<close>

record position =
  line :: int
  column :: int

function offsetToPosition_loop :: "string list \<Rightarrow> int \<Rightarrow> nat \<Rightarrow> int \<Rightarrow> position" where
  "offsetToPosition_loop lines offset i currentOffset =
     (if i < length lines
      then (if currentOffset + (int (length (lines ! i)) + 1) > offset
            then \<lparr>line = int i + 1, column = offset - currentOffset + 1\<rparr>
            else offsetToPosition_loop lines offset (Suc i)
                   (currentOffset + (int (length (lines ! i)) + 1)))
      else \<lparr>line = int (length lines), column = 1\<rparr>)"
  by pat_completeness auto
termination
  by (relation "measure (\<lambda>(lines, offset, i, currentOffset). length lines - i)") auto

declare offsetToPosition_loop.simps [simp del]

definition offsetToPosition :: "string \<Rightarrow> int \<Rightarrow> position" where
  "offsetToPosition content offset =
     offsetToPosition_loop (js_split newline content) offset 0 0"

section \<open>Paths\<close>

text \<open>
  The service names files and directories by path strings and handles them with Node's
  \<^verbatim>\<open>path\<close> module and with \<^verbatim>\<open>startsWith\<close>/\<^verbatim>\<open>endsWith\<close> of the string type.
  The functions below are the POSIX flavour of that module for the calls the service
  makes: \<^verbatim>\<open>dirname\<close>, \<^verbatim>\<open>join\<close>, \<^verbatim>\<open>resolve\<close> of one argument.
\<close>

definition startsWith :: "string \<Rightarrow> string \<Rightarrow> bool" where
  "startsWith s p \<longleftrightarrow> take (length p) s = p"

definition endsWith :: "string \<Rightarrow> string \<Rightarrow> bool" where
  "endsWith s p \<longleftrightarrow> length p \<le> length s \<and> drop (length s - length p) s = p"

definition slash :: char where
  "slash = CHR ''/''"

text \<open>
  \<^verbatim>\<open>path.dirname\<close>: scanning from the end down to index 1, trailing slashes and then the
  last name are skipped; the path up to the slash before that name is the result. Without
  such a slash the result is \<^verbatim>\<open>/\<close> for an absolute path and \<^verbatim>\<open>.\<close> otherwise.
\<close>

definition dirname :: "string \<Rightarrow> string" where
  "dirname p =
     (case p of
        [] \<Rightarrow> ''.''
      | c # rest \<Rightarrow>
          (let hasRoot = (c = slash);
               r = dropWhile (\<lambda>x. x \<noteq> slash) (dropWhile (\<lambda>x. x = slash) (rev rest))
           in if r = [] then (if hasRoot then ''/'' else ''.'')
              else if hasRoot \<and> length r = 1 then ''//''
              else c # rev (tl r)))"

text \<open>
  \<^verbatim>\<open>normalizeString\<close> of the path module: empty and \<^verbatim>\<open>.\<close> segments are dropped, a
  \<^verbatim>\<open>..\<close> removes the segment before it, or is kept when there is none to remove and
  the path is relative. The accumulator holds the kept segments, last one first.
\<close>

fun normalizeSegments :: "bool \<Rightarrow> string list \<Rightarrow> string list \<Rightarrow> string list" where
  "normalizeSegments allowAboveRoot [] acc = rev acc"
| "normalizeSegments allowAboveRoot (s # ss) acc =
     (if s = [] \<or> s = ''.'' then normalizeSegments allowAboveRoot ss acc
      else if s = ''..'' then
        (case acc of
           [] \<Rightarrow> normalizeSegments allowAboveRoot ss (if allowAboveRoot then [s] else [])
         | t # ts \<Rightarrow>
             if t = ''..'' then normalizeSegments allowAboveRoot ss (s # acc)
             else normalizeSegments allowAboveRoot ss ts)
      else normalizeSegments allowAboveRoot ss (s # acc))"

fun joinWith :: "string \<Rightarrow> string list \<Rightarrow> string" where
  "joinWith sep [] = []"
| "joinWith sep [s] = s"
| "joinWith sep (s # t # ss) = s @ sep @ joinWith sep (t # ss)"

definition normalizeString :: "string \<Rightarrow> bool \<Rightarrow> string" where
  "normalizeString p allowAboveRoot =
     joinWith ''/'' (normalizeSegments allowAboveRoot (js_split slash p) [])"

definition isAbsolute :: "string \<Rightarrow> bool" where
  "isAbsolute p \<longleftrightarrow> (case p of [] \<Rightarrow> False | c # _ \<Rightarrow> c = slash)"

definition normalize :: "string \<Rightarrow> string" where
  "normalize p =
     (if p = [] then ''.''
      else (let trailingSeparator = (last p = slash);
                q = normalizeString p (\<not> isAbsolute p)
            in if q = [] then (if isAbsolute p then ''/''
                               else if trailingSeparator then ''./'' else ''.'')
               else (if isAbsolute p then ''/'' else []) @ q
                    @ (if trailingSeparator then ''/'' else [])))"

text \<open>\<^verbatim>\<open>path.join(...args)\<close>: the non-empty arguments joined by a slash, normalised.\<close>

definition join :: "string list \<Rightarrow> string" where
  "join args =
     (case filter (\<lambda>a. a \<noteq> []) args of
        [] \<Rightarrow> ''.''
      | parts \<Rightarrow> normalize (joinWith ''/'' parts))"

text \<open>
  \<^verbatim>\<open>path.resolve(p)\<close>: an absolute argument is normalised, any other is taken relative to
  the working directory of the process, which is absolute.
\<close>

definition resolve :: "string \<Rightarrow> string \<Rightarrow> string" where
  "resolve cwd p =
     (if isAbsolute p then ''/'' @ normalizeString (p @ ''/'') False
      else if p = [] then ''/'' @ normalizeString (cwd @ ''/'') False
      else ''/'' @ normalizeString (cwd @ ''/'' @ p @ ''/'') False)"

section \<open>The file system and the analysis engine\<close>

text \<open>
  The disk as the service sees it through Node's \<^verbatim>\<open>fs\<close> module: regular files with
  their text, directories with their listing (\<^verbatim>\<open>readdirSync\<close> with file types), and the
  paths at which a write fails for a reason outside the model (a missing parent directory,
  permissions). A write changes the text of a file and leaves the listings alone; no
  property below relates the two.
\<close>

datatype entryKind = IsFile | IsDirectory | IsOther

record filesystem =
  files :: "string \<rightharpoonup> string"
  dirs :: "string \<rightharpoonup> (string \<times> entryKind) list"
  unwritable :: "string \<Rightarrow> bool"

definition existsSync :: "filesystem \<Rightarrow> string \<Rightarrow> bool" where
  "existsSync fs p \<longleftrightarrow> files fs p \<noteq> None \<or> dirs fs p \<noteq> None"

text \<open>Reading, listing and writing throw where the result is \<open>None\<close>.\<close>

definition readFileSync :: "filesystem \<Rightarrow> string \<Rightarrow> string option" where
  "readFileSync fs p = files fs p"

definition readdirSync :: "filesystem \<Rightarrow> string \<Rightarrow> (string \<times> entryKind) list option" where
  "readdirSync fs p = dirs fs p"

definition isDirectory :: "filesystem \<Rightarrow> string \<Rightarrow> bool" where
  "isDirectory fs p \<longleftrightarrow> dirs fs p \<noteq> None"

definition writeFileSync :: "filesystem \<Rightarrow> string \<Rightarrow> string \<Rightarrow> filesystem option" where
  "writeFileSync fs p content =
     (if dirs fs p \<noteq> None \<or> unwritable fs p then None
      else Some (fs\<lparr>files := (files fs)(p \<mapsto> content)\<rparr>))"

text \<open>
  The analysis engine is the TypeScript module, used through its API. Of the compiler
  options only \<^verbatim>\<open>types\<close> is read by the service; the other settings are carried along.
  A diagnostic is represented by its flattened message text.
\<close>

record compilerOptions =
  types :: "string list option"
  settings :: "(string \<times> string) list"

record parsedCommandLine =
  parsedOptions :: compilerOptions
  parsedFileNames :: "string list"
  parsedErrors :: "string list"

text \<open>
  \<^verbatim>\<open>readConfigFile\<close> gives the error of a configuration file that cannot be read or is
  not well-formed (\<open>Inl\<close>), or else its content.
\<close>

record tsModule =
  moduleVersion :: string
  readConfigFile :: "filesystem \<Rightarrow> string \<Rightarrow> string + string"
  parseJsonConfigFileContent :: "filesystem \<Rightarrow> string \<Rightarrow> string \<Rightarrow> parsedCommandLine"

text \<open>
  What the process is started with: its working directory, the TypeScript module bundled
  with the server, and the module loader, \<^verbatim>\<open>createRequire(p)("typescript")\<close>, which
  throws (\<open>None\<close>) when \<open>p\<close> is not acceptable or no module can be loaded from there.
\<close>

record runtime =
  cwd :: string
  bundledTs :: tsModule
  requireTypescript :: "filesystem \<Rightarrow> string \<Rightarrow> tsModule option"

section \<open>The caches of the service\<close>

datatype tsSource = Project | Bundled

record tsBinding =
  ts :: tsModule
  version :: string
  source :: tsSource

record projectConfig =
  options :: compilerOptions
  errors :: "string list"
  fileNames :: "string list"
  declarationFiles :: "string list"
  detectedFrameworks :: "string list"
  typescriptVersion :: string
  typescriptSource :: tsSource

text \<open>
  A language service is created from a host object whose functions close over the project
  root, the root files, the compiler options and the engine chosen when it was built.
\<close>

record languageService =
  hostProjectRoot :: string
  hostRootFiles :: "string list"
  hostCompilerOptions :: compilerOptions
  hostTs :: tsModule

text \<open>
  The module-level maps. \<^verbatim>\<open>documentContents\<close> is kept as an association list in
  insertion order, since its keys are enumerated; a \<^verbatim>\<open>Set\<close> of accessed files is a
  list without repetition in insertion order. \<open>activeWorkspace\<close> belongs to the workspace
  manager.
\<close>

record state =
  serviceCache :: "string \<rightharpoonup> languageService"
  documentVersions :: "string \<rightharpoonup> nat"
  documentContents :: "(string \<times> string) list"
  accessedFilesPerProject :: "string \<rightharpoonup> string list"
  tsModuleCache :: "string \<rightharpoonup> tsBinding"
  configCache :: "string \<rightharpoonup> projectConfig"
  activeWorkspace :: "string option"

text \<open>\<^verbatim>\<open>Set.prototype.add\<close>, and \<^verbatim>\<open>[...new Set(xs)]\<close>: the first occurrences, in order.\<close>

definition setAdd :: "'a \<Rightarrow> 'a list \<Rightarrow> 'a list" where
  "setAdd x xs = (if x \<in> set xs then xs else xs @ [x])"

definition newSet :: "'a list \<Rightarrow> 'a list" where
  "newSet xs = fold setAdd xs []"

text \<open>
  \<^verbatim>\<open>
  function registerFile(projectRoot, filePath) {
    if (!accessedFilesPerProject.has(projectRoot)) {
      accessedFilesPerProject.set(projectRoot, new Set());
    }
    accessedFilesPerProject.get(projectRoot)!.add(filePath);
  }
  \<close>
\<close>

definition registerFile :: "state \<Rightarrow> string \<Rightarrow> string \<Rightarrow> state" where
  "registerFile st projectRoot filePath =
     st\<lparr>accessedFilesPerProject := (accessedFilesPerProject st)
          (projectRoot \<mapsto> setAdd filePath
             (case accessedFilesPerProject st projectRoot of
                None \<Rightarrow> []
              | Some accessed \<Rightarrow> accessed))\<rparr>"

section \<open>Project root resolution\<close>

text \<open>
  \<^verbatim>\<open>
  export function findProjectRoot(filePath) {
    let dir = path.dirname(filePath);
    while (dir !== path.dirname(dir)) {
      if (fs.existsSync(path.join(dir, "tsconfig.json"))) { return dir; }
      if (fs.existsSync(path.join(dir, "package.json"))) { return dir; }
      dir = path.dirname(dir);
    }
    return path.dirname(filePath);
  }
  \<close>
  The loop ends because \<open>dirname\<close> of a directory other than itself is smaller in the
  measure below: it is shorter, or it is one of the two top directories.
\<close>

definition pathMeasure :: "string \<Rightarrow> nat" where
  "pathMeasure p =
     (if p = [] then 4 else 2 * length p + (if p = ''.'' \<or> p = ''/'' then 0 else 1))"

definition beforeName :: "string \<Rightarrow> string" where
  "beforeName rest = dropWhile (\<lambda>x. x \<noteq> slash) (dropWhile (\<lambda>x. x = slash) (rev rest))"

lemma dirname_Cons:
  "dirname (c # rest) =
     (if beforeName rest = [] then (if c = slash then ''/'' else ''.'')
      else if c = slash \<and> length (beforeName rest) = 1 then ''//''
      else c # rev (tl (beforeName rest)))"
  unfolding dirname_def beforeName_def Let_def by simp

lemma beforeName_length:
  assumes "beforeName rest \<noteq> []"
  shows "Suc (length (beforeName rest)) \<le> length rest"
proof -
  define r1 where "r1 = dropWhile (\<lambda>x. x = slash) (rev rest)"
  have b: "beforeName rest = dropWhile (\<lambda>x. x \<noteq> slash) r1"
    by (simp add: beforeName_def r1_def)
  with assms obtain x xs where r1: "r1 = x # xs" by (cases r1) auto
  have "x \<noteq> slash"
    using hd_dropWhile [of "\<lambda>x. x = slash" "rev rest"] r1 unfolding r1_def by force
  then have "beforeName rest = dropWhile (\<lambda>x. x \<noteq> slash) xs" by (simp add: b r1)
  then have "length (beforeName rest) \<le> length xs" by (simp add: length_dropWhile_le)
  moreover have "length r1 \<le> length rest" unfolding r1_def
    using length_dropWhile_le [of "\<lambda>x. x = slash" "rev rest"] by simp
  ultimately show ?thesis using r1 by simp
qed


lemma dirname_Nil: "dirname [] = ''.''"
  by (simp add: dirname_def)

lemma dirname_dot: "dirname ''.'' = ''.''"
  by (simp add: dirname_def slash_def)

lemma dirname_slash: "dirname ''/'' = ''/''"
  by (simp add: dirname_def slash_def)

lemma dirname_top_or_shorter:
  assumes "p \<noteq> []"
  shows "dirname p = ''/'' \<or> dirname p = ''.''
         \<or> (dirname p \<noteq> [] \<and> length (dirname p) < length p)"
proof -
  from assms obtain c rest where p: "p = c # rest" by (cases p) auto
  show ?thesis
  proof (cases "beforeName rest = []")
    case True
    then show ?thesis unfolding p dirname_Cons by simp
  next
    case False
    from beforeName_length [OF False] have lr: "Suc (length (beforeName rest)) \<le> length rest" .
    from False have lr0: "0 < length (beforeName rest)" by simp
    show ?thesis
    proof (cases "c = slash \<and> length (beforeName rest) = 1")
      case True
      then have "dirname p = ''//''" unfolding p dirname_Cons using False by simp
      moreover have "2 < length p" using lr True p by simp
      ultimately show ?thesis by simp
    next
      case no: False
      then have "dirname p = c # rev (tl (beforeName rest))"
        unfolding p dirname_Cons using False by presburger
      moreover have "length (c # rev (tl (beforeName rest))) < length p"
        using lr lr0 p by simp
      ultimately show ?thesis by simp
    qed
  qed
qed

lemma pathMeasure_lower: "p \<noteq> [] \<Longrightarrow> 2 * length p \<le> pathMeasure p"
  by (simp add: pathMeasure_def)

lemma pathMeasure_upper: "p \<noteq> [] \<Longrightarrow> pathMeasure p \<le> 2 * length p + 1"
  by (simp add: pathMeasure_def)

lemma pathMeasure_top: "pathMeasure ''.'' = 2" "pathMeasure ''/'' = 2"
  by (simp_all add: pathMeasure_def)

lemma pathMeasure_other:
  assumes "p \<noteq> ''.''" "p \<noteq> ''/''"
  shows "3 \<le> pathMeasure p"
proof (cases "p = []")
  case True
  then show ?thesis by (simp add: pathMeasure_def)
next
  case False
  then have "1 \<le> length p" by (cases p) auto
  with False assms show ?thesis unfolding pathMeasure_def by simp
qed

lemma dirname_shorter:
  assumes "dir \<noteq> dirname dir"
  shows "pathMeasure (dirname dir) < pathMeasure dir"
proof (cases "dir = []")
  case True
  then show ?thesis by (simp add: dirname_Nil pathMeasure_top pathMeasure_def)
next
  case False
  from dirname_top_or_shorter [OF False]
  consider (top) "dirname dir = ''/'' \<or> dirname dir = ''.''"
    | (cut) "dirname dir \<noteq> []" "length (dirname dir) < length dir" by blast
  then show ?thesis
  proof cases
    case top
    then have "pathMeasure (dirname dir) = 2" using pathMeasure_top by auto
    moreover have "dir \<noteq> ''.''" "dir \<noteq> ''/''"
      using assms dirname_dot dirname_slash by auto
    then have "3 \<le> pathMeasure dir" by (rule pathMeasure_other)
    ultimately show ?thesis by simp
  next
    case cut
    have "pathMeasure (dirname dir) \<le> 2 * length (dirname dir) + 1"
      using cut(1) by (rule pathMeasure_upper)
    moreover have "2 * length dir \<le> pathMeasure dir"
      using False by (rule pathMeasure_lower)
    ultimately show ?thesis using cut(2) by simp
  qed
qed

function findProjectRoot_loop :: "filesystem \<Rightarrow> string \<Rightarrow> string \<Rightarrow> string" where
  "findProjectRoot_loop fs filePath dir =
     (if dir \<noteq> dirname dir
      then (if existsSync fs (join [dir, ''tsconfig.json'']) then dir
            else if existsSync fs (join [dir, ''package.json'']) then dir
            else findProjectRoot_loop fs filePath (dirname dir))
      else dirname filePath)"
  by pat_completeness auto
termination
  by (relation "measure (\<lambda>(fs, filePath, dir). pathMeasure dir)")
     (auto simp: dirname_shorter)

declare findProjectRoot_loop.simps [simp del]

definition findProjectRoot :: "filesystem \<Rightarrow> string \<Rightarrow> string" where
  "findProjectRoot fs filePath = findProjectRoot_loop fs filePath (dirname filePath)"

section \<open>Engine resolution\<close>

text \<open>
  \<^verbatim>\<open>
  function getTypeScriptForProject(projectRoot) {
    if (tsModuleCache.has(projectRoot)) { return tsModuleCache.get(projectRoot)!; }
    const localTsPath = path.join(projectRoot, "node_modules", "typescript");
    if (fs.existsSync(localTsPath)) {
      try {
        const require = createRequire(path.join(projectRoot, "package.json"));
        const localTs = require("typescript");
        const result = { ts: localTs, version: localTs.version, source: "project" };
        tsModuleCache.set(projectRoot, result);
        return result;
      } catch (error) { /* logged */ }
    }
    const result = { ts: bundledTs, version: bundledTs.version, source: "bundled" };
    tsModuleCache.set(projectRoot, result);
    return result;
  }
  \<close>
  The messages written to the log are left out. \<open>loadLocalTypeScript\<close> is the guarded
  \<^verbatim>\<open>try\<close> block: the module loaded from the project, or \<open>None\<close> when there is no
  installation or loading throws.
\<close>

definition loadLocalTypeScript :: "runtime \<Rightarrow> filesystem \<Rightarrow> string \<Rightarrow> tsModule option" where
  "loadLocalTypeScript rt fs projectRoot =
     (if existsSync fs (join [projectRoot, ''node_modules'', ''typescript''])
      then requireTypescript rt fs (join [projectRoot, ''package.json''])
      else None)"

definition getTypeScriptForProject ::
    "runtime \<Rightarrow> filesystem \<Rightarrow> state \<Rightarrow> string \<Rightarrow> state \<times> tsBinding" where
  "getTypeScriptForProject rt fs st projectRoot =
     (case tsModuleCache st projectRoot of
        Some cached \<Rightarrow> (st, cached)
      | None \<Rightarrow>
          (let result =
                 (case loadLocalTypeScript rt fs projectRoot of
                    Some localTs \<Rightarrow>
                      \<lparr>ts = localTs, version = moduleVersion localTs, source = Project\<rparr>
                  | None \<Rightarrow>
                      \<lparr>ts = bundledTs rt, version = moduleVersion (bundledTs rt),
                       source = Bundled\<rparr>)
           in (st\<lparr>tsModuleCache := (tsModuleCache st)(projectRoot \<mapsto> result)\<rparr>, result)))"

section \<open>Project configuration\<close>

text \<open>
  \<^verbatim>\<open>findDeclarationFiles\<close>: the \<^verbatim>\<open>.d.ts\<close> files below the project root, down to depth
  5, not descending into dependency, build and version-control directories. A directory
  that cannot be listed contributes nothing.
\<close>

definition skippedDirectories :: "string list" where
  "skippedDirectories = [''node_modules'', ''dist'', ''build'', ''.git'', ''.next'', ''.nuxt'']"

function scanDir :: "filesystem \<Rightarrow> string \<Rightarrow> nat \<Rightarrow> string list" where
  "scanDir fs dir depth =
     (if depth > 5 then []
      else (case readdirSync fs dir of
              None \<Rightarrow> []
            | Some entries \<Rightarrow>
                concat (map (\<lambda>entry.
                  if snd entry = IsDirectory
                  then (if fst entry \<notin> set skippedDirectories
                        then scanDir fs (join [dir, fst entry]) (depth + 1)
                        else [])
                  else if snd entry = IsFile \<and> endsWith (fst entry) ''.d.ts''
                       then [join [dir, fst entry]]
                       else []) entries)))"
  by pat_completeness auto
termination
  by (relation "measure (\<lambda>(fs, dir, depth). 6 - depth)") auto

declare scanDir.simps [simp del]

definition findDeclarationFiles :: "filesystem \<Rightarrow> string \<Rightarrow> string list" where
  "findDeclarationFiles fs projectRoot = scanDir fs projectRoot 0"

text \<open>
  \<^verbatim>\<open>detectFrameworkTypes\<close>: the type packages added for a project with dependencies
  installed; the checks for Vue and React add nothing.
\<close>

definition detectFrameworkTypes :: "filesystem \<Rightarrow> string \<Rightarrow> string list" where
  "detectFrameworkTypes fs projectRoot =
     (let nodeModulesPath = join [projectRoot, ''node_modules'']
      in if \<not> existsSync fs nodeModulesPath then []
         else (let hasVite = (existsSync fs (join [projectRoot, ''vite.config.ts''])
                              \<or> existsSync fs (join [projectRoot, ''vite.config.js''])
                              \<or> existsSync fs (join [projectRoot, ''vite.config.mts'']))
               in (if hasVite \<and> existsSync fs (join [nodeModulesPath, ''vite'', ''client.d.ts''])
                   then [''vite/client''] else [])
                  @ (if existsSync fs (join [nodeModulesPath, ''@types'', ''node''])
                     then [''node''] else [])))"

text \<open>
  The options used when the project has no readable configuration
  (\<^verbatim>\<open>getLanguageService\<close>, the initial value of \<^verbatim>\<open>compilerOptions\<close>).
\<close>

definition defaultCompilerOptions :: compilerOptions where
  "defaultCompilerOptions =
     \<lparr>types = None,
      settings = [(''target'', ''ESNext''), (''module'', ''ESNext''),
                  (''moduleResolution'', ''Bundler''), (''esModuleInterop'', ''true''),
                  (''strict'', ''true''), (''skipLibCheck'', ''true''),
                  (''allowJs'', ''true''), (''checkJs'', ''true''),
                  (''resolveJsonModule'', ''true'')]\<rparr>"

text \<open>
  \<^verbatim>\<open>
  for (const type of frameworkTypes) {
    if (!compilerOptions.types?.includes(type)) {
      compilerOptions.types = [...(compilerOptions.types || []), type];
    }
  }
  for (const dtsFile of projectDtsFiles) {
    if (!rootFiles.includes(dtsFile)) { rootFiles.push(dtsFile); }
  }
  \<close>
\<close>

definition addFrameworkTypes :: "string list \<Rightarrow> compilerOptions \<Rightarrow> compilerOptions" where
  "addFrameworkTypes frameworkTypes opts =
     fold (\<lambda>t acc. case types acc of
                      None \<Rightarrow> acc\<lparr>types := Some [t]\<rparr>
                    | Some listed \<Rightarrow> acc\<lparr>types := Some (setAdd t listed)\<rparr>)
          frameworkTypes opts"

definition addDeclarationFiles :: "string list \<Rightarrow> string list \<Rightarrow> string list" where
  "addDeclarationFiles projectDtsFiles rootFiles = fold setAdd projectDtsFiles rootFiles"

text \<open>
  The configuration part of \<^verbatim>\<open>getLanguageService\<close>: options, root files and errors.
  \<^verbatim>\<open>
  let rootFiles = [];
  const configErrors = [];
  const projectDtsFiles = findDeclarationFiles(projectRoot);
  if (fs.existsSync(configPath)) {
    const configFile = ts.readConfigFile(configPath, ts.sys.readFile);
    if (configFile.error) {
      configErrors.push(`Failed to read tsconfig.json: ${...}`);
    } else {
      const parsed = ts.parseJsonConfigFileContent(configFile.config, ts.sys, projectRoot);
      if (parsed.errors.length > 0) { for (const err of parsed.errors) configErrors.push(...); }
      compilerOptions = parsed.options;
      rootFiles = parsed.fileNames;
      /* framework types, declaration files: the two loops above */
    }
  } else {
    rootFiles = [...projectDtsFiles];
  }
  \<close>
\<close>

definition readProjectConfig ::
    "tsModule \<Rightarrow> filesystem \<Rightarrow> string \<Rightarrow> string list
       \<Rightarrow> compilerOptions \<times> string list \<times> string list" where
  "readProjectConfig tsm fs projectRoot projectDtsFiles =
     (let configPath = join [projectRoot, ''tsconfig.json'']
      in if existsSync fs configPath
         then (case readConfigFile tsm fs configPath of
                 Inl message \<Rightarrow>
                   (defaultCompilerOptions, [], [''Failed to read tsconfig.json: '' @ message])
               | Inr config \<Rightarrow>
                   (let parsed = parseJsonConfigFileContent tsm fs config projectRoot
                    in (addFrameworkTypes (detectFrameworkTypes fs projectRoot)
                          (parsedOptions parsed),
                        addDeclarationFiles projectDtsFiles (parsedFileNames parsed),
                        parsedErrors parsed)))
         else (defaultCompilerOptions, projectDtsFiles, []))"

text \<open>The frameworks reported in the project status.\<close>

definition detectFrameworks :: "filesystem \<Rightarrow> string \<Rightarrow> string list" where
  "detectFrameworks fs projectRoot =
     (if existsSync fs (join [projectRoot, ''vite.config.ts''])
         \<or> existsSync fs (join [projectRoot, ''vite.config.js''])
         \<or> existsSync fs (join [projectRoot, ''vite.config.mts''])
      then [''vite''] else [])
     @ (if existsSync fs (join [projectRoot, ''vue.config.js''])
           \<or> existsSync fs (join [projectRoot, ''src'', ''App.vue''])
           \<or> existsSync fs (join [projectRoot, ''node_modules'', ''vue''])
        then [''vue''] else [])
     @ (if existsSync fs (join [projectRoot, ''node_modules'', ''@vitejs'', ''plugin-vue-jsx''])
           \<or> existsSync fs (join [projectRoot, ''node_modules'', ''@vue'', ''babel-plugin-jsx''])
        then [''vue-tsx''] else [])
     @ (if existsSync fs (join [projectRoot, ''next.config.js''])
           \<or> existsSync fs (join [projectRoot, ''next.config.ts''])
        then [''next''] else [])
     @ (if existsSync fs (join [projectRoot, ''nuxt.config.ts''])
           \<or> existsSync fs (join [projectRoot, ''nuxt.config.js''])
        then [''nuxt''] else [])"

section \<open>The session cache\<close>

text \<open>
  \<^verbatim>\<open>getLanguageService(projectRoot)\<close>: the cached service of the root, or a new one,
  built from the engine binding and the configuration, recorded in \<^verbatim>\<open>configCache\<close>
  and cached.
\<close>

definition getLanguageService ::
    "runtime \<Rightarrow> filesystem \<Rightarrow> state \<Rightarrow> string \<Rightarrow> state \<times> languageService" where
  "getLanguageService rt fs st projectRoot =
     (case serviceCache st projectRoot of
        Some service \<Rightarrow> (st, service)
      | None \<Rightarrow>
          (let (st1, binding) = getTypeScriptForProject rt fs st projectRoot;
               projectDtsFiles = findDeclarationFiles fs projectRoot;
               (compilerOptions, rootFiles, configErrors) =
                 readProjectConfig (ts binding) fs projectRoot projectDtsFiles;
               st2 = st1\<lparr>configCache := (configCache st1)(projectRoot \<mapsto>
                       \<lparr>options = compilerOptions, errors = configErrors,
                        fileNames = rootFiles, declarationFiles = projectDtsFiles,
                        detectedFrameworks = detectFrameworks fs projectRoot,
                        typescriptVersion = version binding,
                        typescriptSource = source binding\<rparr>)\<rparr>;
               service = \<lparr>hostProjectRoot = projectRoot, hostRootFiles = rootFiles,
                          hostCompilerOptions = compilerOptions, hostTs = ts binding\<rparr>
           in (st2\<lparr>serviceCache := (serviceCache st2)(projectRoot \<mapsto> service)\<rparr>, service)))"

text \<open>
  \<^verbatim>\<open>getProjectConfig(projectRoot)\<close>: the recorded configuration, after making sure the
  service exists.
\<close>

definition getProjectConfig ::
    "runtime \<Rightarrow> filesystem \<Rightarrow> state \<Rightarrow> string \<Rightarrow> state \<times> projectConfig option" where
  "getProjectConfig rt fs st projectRoot =
     (let st1 = fst (getLanguageService rt fs st projectRoot)
      in (st1, configCache st1 projectRoot))"

text \<open>
  The functions of the host. They read the maps of the module when the engine calls them,
  not when the service is built.
  \<^verbatim>\<open>
  getScriptFileNames: () => {
    const openFiles = Array.from(documentContents.keys()).filter(
      (f) => f.startsWith(projectRoot) && (f.endsWith(".ts") || f.endsWith(".tsx")
                                          || f.endsWith(".js") || f.endsWith(".jsx")));
    const accessed = accessedFilesPerProject.get(projectRoot);
    const accessedList = accessed ? Array.from(accessed) : [];
    return [...new Set([...rootFiles, ...openFiles, ...accessedList])];
  },
  getScriptVersion: (fileName) => (documentVersions.get(fileName) || 0).toString(),
  \<close>
  \<open>storedVersion\<close> is \<^verbatim>\<open>documentVersions.get(fileName) || 0\<close>, the version stored for
  a file, 0 when none is. The version token is the decimal form of that number; the model
  returns the number.
\<close>

definition hasScriptExtension :: "string \<Rightarrow> bool" where
  "hasScriptExtension f \<longleftrightarrow>
     endsWith f ''.ts'' \<or> endsWith f ''.tsx'' \<or> endsWith f ''.js'' \<or> endsWith f ''.jsx''"

definition openFiles :: "state \<Rightarrow> string \<Rightarrow> string list" where
  "openFiles st projectRoot =
     filter (\<lambda>f. startsWith f projectRoot \<and> hasScriptExtension f)
            (map fst (documentContents st))"

definition accessedList :: "state \<Rightarrow> string \<Rightarrow> string list" where
  "accessedList st projectRoot =
     (case accessedFilesPerProject st projectRoot of None \<Rightarrow> [] | Some accessed \<Rightarrow> accessed)"

definition getScriptFileNames :: "state \<Rightarrow> languageService \<Rightarrow> string list" where
  "getScriptFileNames st service =
     newSet (hostRootFiles service @ openFiles st (hostProjectRoot service)
             @ accessedList st (hostProjectRoot service))"

definition storedVersion :: "state \<Rightarrow> string \<Rightarrow> nat" where
  "storedVersion st fileName =
     (case documentVersions st fileName of None \<Rightarrow> 0 | Some v \<Rightarrow> v)"

definition getScriptVersion :: "state \<Rightarrow> string \<Rightarrow> nat" where
  "getScriptVersion st fileName = storedVersion st fileName"

section \<open>The document overlay\<close>

text \<open>
  \<^verbatim>\<open>
  export function updateDocument(filePath, content) {
    const absPath = path.resolve(filePath);
    documentContents.set(absPath, content);
    documentVersions.set(absPath, (documentVersions.get(absPath) || 0) + 1);
    const projectRoot = findProjectRoot(absPath);
    serviceCache.delete(projectRoot);
  }
  \<close>
\<close>

definition updateDocument :: "runtime \<Rightarrow> filesystem \<Rightarrow> state \<Rightarrow> string \<Rightarrow> string \<Rightarrow> state" where
  "updateDocument rt fs st filePath content =
     (let absPath = resolve (cwd rt) filePath;
          st1 = st\<lparr>documentContents := AList.update absPath content (documentContents st)\<rparr>;
          st2 = st1\<lparr>documentVersions := (documentVersions st1)
                       (absPath \<mapsto> storedVersion st1 absPath + 1)\<rparr>;
          projectRoot = findProjectRoot fs absPath
      in st2\<lparr>serviceCache := (serviceCache st2)(projectRoot := None)\<rparr>)"

text \<open>
  \<^verbatim>\<open>
  export function getFileContent(filePath) {
    const absPath = path.resolve(filePath);
    if (documentContents.has(absPath)) { return documentContents.get(absPath)!; }
    return fs.readFileSync(absPath, "utf-8");
  }
  \<close>
  A file that is neither overlaid nor readable makes the call throw.
\<close>

datatype ioError = ReadFailed string | WriteFailed string

definition getFileContent :: "runtime \<Rightarrow> filesystem \<Rightarrow> state \<Rightarrow> string \<Rightarrow> ioError + string" where
  "getFileContent rt fs st filePath =
     (let absPath = resolve (cwd rt) filePath
      in case map_of (documentContents st) absPath of
           Some content \<Rightarrow> Inr content
         | None \<Rightarrow> (case readFileSync fs absPath of
                       Some content \<Rightarrow> Inr content
                     | None \<Rightarrow> Inl (ReadFailed absPath)))"

section \<open>Queries register their file\<close>

text \<open>
  Every query operation (hover, definition, references, completions, signature help,
  symbols, diagnostics, rename, refactorings) starts with
  \<^verbatim>\<open>
  function getServiceForFile(filePath) {
    const absPath = path.resolve(filePath);
    const projectRoot = findProjectRoot(absPath);
    registerFile(projectRoot, absPath);
    serviceCache.delete(projectRoot);
    const service = getLanguageService(projectRoot);
    return { service, absPath, projectRoot };
  }
  \<close>
\<close>

definition invalidate :: "state \<Rightarrow> string \<Rightarrow> state" where
  "invalidate st projectRoot = st\<lparr>serviceCache := (serviceCache st)(projectRoot := None)\<rparr>"

definition getServiceForFile ::
    "runtime \<Rightarrow> filesystem \<Rightarrow> state \<Rightarrow> string \<Rightarrow> state \<times> languageService \<times> string \<times> string" where
  "getServiceForFile rt fs st filePath =
     (let absPath = resolve (cwd rt) filePath;
          projectRoot = findProjectRoot fs absPath;
          st1 = registerFile st projectRoot absPath;
          st2 = invalidate st1 projectRoot;
          (st3, service) = getLanguageService rt fs st2 projectRoot
      in (st3, service, absPath, projectRoot))"

section \<open>Applying file changes\<close>

text \<open>
  The edits of a refactoring, as the engine reports them: per file, whether it is new, and
  the text changes with their spans.
\<close>

record textChange =
  spanStart :: int
  spanLength :: int
  newText :: string

record fileTextChanges =
  fileName :: string
  isNewFile :: bool
  textChanges :: "textChange list"

record applyResult =
  changedFiles :: "string list"
  created :: "string list"
  deleted :: "string list"

text \<open>
  \<^verbatim>\<open>String.prototype.substring(a, b)\<close>: both indices are clamped to the string, and
  swapped when the first is the larger. With one argument the end is the length.
\<close>

definition substring :: "string \<Rightarrow> int \<Rightarrow> int \<Rightarrow> string" where
  "substring s a b =
     (let n = int (length s);
          a' = max 0 (min a n);
          b' = max 0 (min b n)
      in take (nat (max a' b' - min a' b')) (drop (nat (min a' b')) s))"

definition applyTextChange :: "string \<Rightarrow> textChange \<Rightarrow> string" where
  "applyTextChange content change =
     substring content 0 (spanStart change) @ newText change
     @ substring content (spanStart change + spanLength change) (int (length content))"

text \<open>
  The changes of an existing file are applied from the end of the text to its start: they
  are sorted by descending start (the sort is stable) and applied in that order.
\<close>

definition applyTextChanges :: "string \<Rightarrow> textChange list \<Rightarrow> string" where
  "applyTextChanges content changes =
     fold (\<lambda>change acc. applyTextChange acc change)
          (sort_key (\<lambda>change. - spanStart change) changes) content"

text \<open>
  \<^verbatim>\<open>
  export function applyFileChanges(changes) {
    const changedFiles = [], created = [], deleted = [];
    for (const fileChange of changes) {
      const filePath = fileChange.fileName;
      if (fileChange.isNewFile) {
        const content = fileChange.textChanges.map((change) => change.newText).join("");
        fs.writeFileSync(filePath, content, "utf-8");
        created.push(filePath);
      } else if (fs.existsSync(filePath)) {
        let content = fs.readFileSync(filePath, "utf-8");
        /* sorted changes applied */
        fs.writeFileSync(filePath, content, "utf-8");
        changedFiles.push(filePath);
        documentContents.set(filePath, content);
        documentVersions.set(filePath, (documentVersions.get(filePath) || 0) + 1);
      }
    }
    return { changedFiles, created, deleted };
  }
  \<close>
  A failing read or write throws out of the loop: the disk and the maps keep what the
  earlier iterations did, and no result is returned.
\<close>

fun applyFileChanges_loop ::
    "filesystem \<Rightarrow> state \<Rightarrow> applyResult \<Rightarrow> fileTextChanges list
       \<Rightarrow> filesystem \<times> state \<times> (ioError + applyResult)" where
  "applyFileChanges_loop fs st res [] = (fs, st, Inr res)"
| "applyFileChanges_loop fs st res (fileChange # changes) =
     (let filePath = fileName fileChange
      in if isNewFile fileChange
         then (case writeFileSync fs filePath (concat (map newText (textChanges fileChange))) of
                 None \<Rightarrow> (fs, st, Inl (WriteFailed filePath))
               | Some fs1 \<Rightarrow>
                   applyFileChanges_loop fs1 st (res\<lparr>created := created res @ [filePath]\<rparr>)
                     changes)
         else if existsSync fs filePath
         then (case readFileSync fs filePath of
                 None \<Rightarrow> (fs, st, Inl (ReadFailed filePath))
               | Some old \<Rightarrow>
                   (let content = applyTextChanges old (textChanges fileChange)
                    in case writeFileSync fs filePath content of
                         None \<Rightarrow> (fs, st, Inl (WriteFailed filePath))
                       | Some fs1 \<Rightarrow>
                           (let st1 = st\<lparr>documentContents :=
                                          AList.update filePath content (documentContents st)\<rparr>;
                                st2 = st1\<lparr>documentVersions := (documentVersions st1)
                                          (filePath \<mapsto> storedVersion st1 filePath + 1)\<rparr>
                            in applyFileChanges_loop fs1 st2
                                 (res\<lparr>changedFiles := changedFiles res @ [filePath]\<rparr>)
                                 changes)))
         else applyFileChanges_loop fs st res changes)"

definition applyFileChanges ::
    "filesystem \<Rightarrow> state \<Rightarrow> fileTextChanges list
       \<Rightarrow> filesystem \<times> state \<times> (ioError + applyResult)" where
  "applyFileChanges fs st changes =
     applyFileChanges_loop fs st \<lparr>changedFiles = [], created = [], deleted = []\<rparr> changes"

section \<open>The workspace manager\<close>

text \<open>
  Modelled from the spec: \<^verbatim>\<open>clearAllCaches\<close>, which the server imports from the service
  module and whose definition is not among the sources. The spec's \<^verbatim>\<open>resetAll()\<close>
  "drops every cached session and every EngineBinding"; overlays "are cleared only as a
  side effect of a global reset", and the accessed files never shrink "except on full cache
  clear".
\<close>

definition clearAllCaches :: "state \<Rightarrow> state" where
  "clearAllCaches st =
     st\<lparr>serviceCache := Map.empty, tsModuleCache := Map.empty,
        documentContents := [], documentVersions := Map.empty,
        accessedFilesPerProject := Map.empty\<rparr>"

text \<open>
  Modelled from the spec: \<^verbatim>\<open>setActiveWorkspace\<close>, imported by the server likewise and
  not among the sources. The spec: it "validates \<^verbatim>\<open>path\<close> is an existing directory, calls
  \<^verbatim>\<open>resetAll()\<close>, then sets it as ActiveWorkspace, returning the canonical path".
\<close>

datatype workspaceError = InvalidPath string

definition setActiveWorkspace ::
    "runtime \<Rightarrow> filesystem \<Rightarrow> state \<Rightarrow> string \<Rightarrow> workspaceError + (state \<times> string)" where
  "setActiveWorkspace rt fs st p =
     (let canonical = resolve (cwd rt) p
      in if isDirectory fs canonical
         then Inr ((clearAllCaches st)\<lparr>activeWorkspace := Some canonical\<rparr>, canonical)
         else Inl (InvalidPath p))"

text \<open>
  The handler of the \<^verbatim>\<open>switch_workspace\<close> tool of the server:
  \<^verbatim>\<open>
  async ({ path: inputPath }) => {
    try {
      const absPath = path.resolve(inputPath);
      if (!fs.existsSync(absPath) || !fs.statSync(absPath).isDirectory()) {
        return { ... error: "Invalid Path", message: `'${inputPath}' is not a directory.` };
      }
      clearAllCaches();
      const newWorkspace = setActiveWorkspace(absPath);
      return { ... success: true, workspace: newWorkspace, ... };
    } catch (error) {
      return { ... error: String(error) };
    }
  }
  \<close>
\<close>

datatype switchReply =
    NotADirectory string
  | Switched string
  | Caught workspaceError

definition switch_workspace ::
    "runtime \<Rightarrow> filesystem \<Rightarrow> state \<Rightarrow> string \<Rightarrow> state \<times> switchReply" where
  "switch_workspace rt fs st inputPath =
     (let absPath = resolve (cwd rt) inputPath
      in if \<not> existsSync fs absPath \<or> \<not> isDirectory fs absPath
         then (st, NotADirectory inputPath)
         else (let st1 = clearAllCaches st
               in case setActiveWorkspace rt fs st1 absPath of
                    Inl e \<Rightarrow> (st1, Caught e)
                  | Inr (st2, newWorkspace) \<Rightarrow> (st2, Switched newWorkspace)))"

section \<open>Notions of the specification\<close>

text \<open>
  A position within the bounds of a text: one of its lines, and a column on that line or
  just past its last character (where the line break or the end of the text is).
\<close>

definition inBounds :: "string \<Rightarrow> int \<Rightarrow> int \<Rightarrow> bool" where
  "inBounds content ln col \<longleftrightarrow>
     1 \<le> ln \<and> ln \<le> int (length (js_split newline content)) \<and>
     1 \<le> col \<and> col \<le> int (length (js_split newline content ! nat (ln - 1))) + 1"

text \<open>
  The directories from \<open>dir\<close> up to the filesystem root: \<open>dir\<close>, its parent, the parent
  of that, and so on, ending with the top directory, the one that is its own parent
  (\<^verbatim>\<open>/\<close> for an absolute path).
\<close>

function ancestors :: "string \<Rightarrow> string list" where
  "ancestors dir = dir # (if dir \<noteq> dirname dir then ancestors (dirname dir) else [])"
  by pat_completeness auto
termination
  by (relation "measure pathMeasure") (auto simp: dirname_shorter)

declare ancestors.simps [simp del]

definition hasMarker :: "filesystem \<Rightarrow> string \<Rightarrow> bool" where
  "hasMarker fs dir \<longleftrightarrow>
     existsSync fs (join [dir, ''tsconfig.json'']) \<or> existsSync fs (join [dir, ''package.json''])"

text \<open>
  The project root as the specification words it: the nearest directory with a marker,
  starting from the directory of the file and walking the parents up to the filesystem
  root; the directory of the file when none has a marker.
\<close>

definition nearestMarked :: "filesystem \<Rightarrow> string \<Rightarrow> string" where
  "nearestMarked fs filePath =
     (case find (hasMarker fs) (ancestors (dirname filePath)) of
        Some found \<Rightarrow> found
      | None \<Rightarrow> dirname filePath)"

text \<open>A file located under a root directory: its path continues the root's by a slash.\<close>

definition locatedUnder :: "string \<Rightarrow> string \<Rightarrow> bool" where
  "locatedUnder root f \<longleftrightarrow> startsWith f (if endsWith root ''/'' then root else root @ ''/'')"

text \<open>
  The scope of a session as invariant I1 words it: the root files, the overlaid files
  under the root, the accessed files of the root.
\<close>

definition compilationScope :: "state \<Rightarrow> languageService \<Rightarrow> string set" where
  "compilationScope st service =
     set (hostRootFiles service)
     \<union> set (filter (locatedUnder (hostProjectRoot service)) (map fst (documentContents st)))
     \<union> set (accessedList st (hostProjectRoot service))"

section \<open>Example projects\<close>

text \<open>
  A project \<^verbatim>\<open>/p\<close> whose \<^verbatim>\<open>tsconfig.json\<close> is cut off after the opening brace, with a
  source file, a declaration file and its own TypeScript installed; a second project
  \<^verbatim>\<open>/q\<close> with a package manifest and no installation. The example engine rejects the
  cut-off configuration and accepts any other.
\<close>

definition exampleFs :: filesystem where
  "exampleFs =
     \<lparr>files = [''/p/tsconfig.json'' \<mapsto> ''{'', ''/p/src/a.ts'' \<mapsto> ''let a = 1'',
               ''/p/types/g.d.ts'' \<mapsto> ''declare const g: number'',
               ''/q/package.json'' \<mapsto> ''{}'', ''/q/b.ts'' \<mapsto> ''let b = 2'',
               ''/q/c.ts'' \<mapsto> ''let c = 0'', ''/q/util.mts'' \<mapsto> ''export {}''],
      dirs = [''/'' \<mapsto> [(''p'', IsDirectory), (''q'', IsDirectory)],
              ''/p'' \<mapsto> [(''tsconfig.json'', IsFile), (''src'', IsDirectory),
                           (''types'', IsDirectory), (''node_modules'', IsDirectory)],
              ''/p/src'' \<mapsto> [(''a.ts'', IsFile)],
              ''/p/types'' \<mapsto> [(''g.d.ts'', IsFile)],
              ''/p/node_modules'' \<mapsto> [(''typescript'', IsDirectory)],
              ''/p/node_modules/typescript'' \<mapsto> [],
              ''/q'' \<mapsto> [(''package.json'', IsFile), (''b.ts'', IsFile), (''c.ts'', IsFile),
                           (''util.mts'', IsFile)]],
      unwritable = (\<lambda>p. False)\<rparr>"

definition exampleTs :: tsModule where
  "exampleTs =
     \<lparr>moduleVersion = ''5.4.5'',
      readConfigFile = (\<lambda>fs p. case files fs p of
                                  None \<Rightarrow> Inl ''Cannot read file.''
                                | Some text \<Rightarrow> if text = ''{'' then Inl ''Closing brace expected.''
                                               else Inr text),
      parseJsonConfigFileContent = (\<lambda>fs config root.
         \<lparr>parsedOptions = \<lparr>types = None, settings = []\<rparr>,
          parsedFileNames = [], parsedErrors = []\<rparr>)\<rparr>"

definition exampleRuntime :: runtime where
  "exampleRuntime =
     \<lparr>cwd = ''/p'', bundledTs = exampleTs,
      requireTypescript = (\<lambda>fs p. if p = ''/p/package.json''
                                   then Some (exampleTs\<lparr>moduleVersion := ''4.9.5''\<rparr>)
                                   else None)\<rparr>"

definition emptyState :: state where
  "emptyState =
     \<lparr>serviceCache = Map.empty, documentVersions = Map.empty, documentContents = [],
      accessedFilesPerProject = Map.empty, tsModuleCache = Map.empty,
      configCache = Map.empty, activeWorkspace = None\<rparr>"

text \<open>A disk whose only marker is a package manifest in the filesystem root.\<close>

definition rootOnlyFs :: filesystem where
  "rootOnlyFs =
     \<lparr>files = [''/package.json'' \<mapsto> ''{}'', ''/a/b.ts'' \<mapsto> ''let b = 2''],
      dirs = [''/'' \<mapsto> [(''package.json'', IsFile), (''a'', IsDirectory)],
              ''/a'' \<mapsto> [(''b.ts'', IsFile)]],
      unwritable = (\<lambda>p. False)\<rparr>"

text \<open>The state after a query in each of the two projects.\<close>

definition twoProjects :: state where
  "twoProjects =
     fst (getServiceForFile exampleRuntime exampleFs
            (fst (getServiceForFile exampleRuntime exampleFs emptyState ''/p/src/a.ts''))
            ''/q/b.ts'')"

text \<open>
  The state, and the service of \<^verbatim>\<open>/q\<close>, after two overlay writes in \<^verbatim>\<open>/q\<close> (a module
  file \<^verbatim>\<open>util.mts\<close> and a script \<^verbatim>\<open>c.ts\<close>) and a query on \<^verbatim>\<open>/q/b.ts\<close>.
\<close>

definition overlaidQuery :: "state \<times> languageService \<times> string \<times> string" where
  "overlaidQuery =
     getServiceForFile exampleRuntime exampleFs
       (updateDocument exampleRuntime exampleFs
          (updateDocument exampleRuntime exampleFs emptyState
             ''/q/util.mts'' ''export const u = 1'')
          ''/q/c.ts'' ''let c = 3'')
       ''/q/b.ts''"

definition overlaidState :: state where
  "overlaidState = fst overlaidQuery"

definition overlaidService :: languageService where
  "overlaidService = fst (snd overlaidQuery)"

text \<open>
  Edits of a refactoring: two changes in an existing file, a new file, and changes for a
  file that is not on disk.
\<close>

definition exampleChanges :: "fileTextChanges list" where
  "exampleChanges =
     [\<lparr>fileName = ''/p/src/a.ts'', isNewFile = False,
       textChanges = [\<lparr>spanStart = 4, spanLength = 1, newText = ''x''\<rparr>,
                      \<lparr>spanStart = 8, spanLength = 1, newText = ''42''\<rparr>]\<rparr>,
      \<lparr>fileName = ''/p/src/new.ts'', isNewFile = True,
       textChanges = [\<lparr>spanStart = 0, spanLength = 0, newText = ''export {}''\<rparr>]\<rparr>,
      \<lparr>fileName = ''/p/src/gone.ts'', isNewFile = False, textChanges = []\<rparr>]"

text \<open>The example text of two lines, \<^verbatim>\<open>a\<close> and \<^verbatim>\<open>bc\<close>.\<close>

definition exampleText :: string where
  "exampleText = [CHR ''a'', newline, CHR ''b'', CHR ''c'']"

text \<open>What a line adds to the offset: its length and one for the line break.\<close>

definition span :: "string \<Rightarrow> int" where
  "span l = int (length l) + 1"

section \<open>Properties of the coordinate mapper\<close>

lemma js_split_not_Nil: "js_split sep s \<noteq> []"
  by (induction s) (auto split: list.splits)

lemma js_split_total_span:
  "sum_list (map span (js_split newline s)) = int (length s) + 1"
proof (induction s)
  case Nil
  show ?case by (simp add: span_def)
next
  case (Cons c cs)
  show ?case
  proof (cases "c = newline")
    case True
    with Cons show ?thesis by (simp add: span_def)
  next
    case False
    obtain l ls where sp: "js_split newline cs = l # ls"
      using js_split_not_Nil [of newline cs] by (cases "js_split newline cs") auto
    with Cons False show ?thesis by (simp add: span_def)
  qed
qed

text \<open>The first loop adds up the spans of the lines before the requested one.\<close>

lemma positionToOffset_loop_sum:
  "i \<le> k \<Longrightarrow> k \<le> length lines \<Longrightarrow> ln - 1 = int k \<Longrightarrow>
   positionToOffset_loop lines ln i offset
     = offset + sum_list (map span (take (k - i) (drop i lines)))"
proof (induction "k - i" arbitrary: i offset)
  case 0
  then have "i = k" by simp
  with 0 show ?case by (simp add: positionToOffset_loop.simps [of lines ln k offset])
next
  case (Suc d)
  then have lt: "i < k" and d: "d = k - Suc i" by auto
  from lt Suc.prems have il: "i < length lines" by simp
  have dr: "drop i lines = lines ! i # drop (Suc i) lines"
    using il by (simp add: Cons_nth_drop_Suc)
  have tk: "k - i = Suc (k - Suc i)" using lt by simp
  have "positionToOffset_loop lines ln i offset
          = positionToOffset_loop lines ln (Suc i) (offset + span (lines ! i))"
    using lt il Suc.prems(3)
    by (simp add: span_def positionToOffset_loop.simps [of lines ln i offset])
  also have "\<dots> = offset + span (lines ! i)
                    + sum_list (map span (take (k - Suc i) (drop (Suc i) lines)))"
    using Suc.hyps(1) [OF d] lt Suc.prems by simp
  also have "\<dots> = offset + sum_list (map span (take (k - i) (drop i lines)))"
    by (simp add: dr tk)
  finally show ?case .
qed

text \<open>
  The second loop stops at line \<open>k\<close> when the offset falls into the span of that line, and
  runs through when the offset is beyond all spans.
\<close>

lemma offsetToPosition_loop_hit:
  "i \<le> k \<Longrightarrow> k < length lines \<Longrightarrow>
   cur + sum_list (map span (take (k - i) (drop i lines))) \<le> offset \<Longrightarrow>
   offset < cur + sum_list (map span (take (k - i) (drop i lines))) + span (lines ! k) \<Longrightarrow>
   offsetToPosition_loop lines offset i cur
     = \<lparr>line = int k + 1,
        column = offset - (cur + sum_list (map span (take (k - i) (drop i lines)))) + 1\<rparr>"
proof (induction "k - i" arbitrary: i cur)
  case 0
  then have "i = k" by simp
  with 0 show ?case
    by (simp add: span_def offsetToPosition_loop.simps [of lines offset k cur])
next
  case (Suc d)
  then have lt: "i < k" and d: "d = k - Suc i" by auto
  from lt Suc.prems have il: "i < length lines" by simp
  have dr: "drop i lines = lines ! i # drop (Suc i) lines"
    using il by (simp add: Cons_nth_drop_Suc)
  have tk: "k - i = Suc (k - Suc i)" using lt by simp
  let ?rest = "sum_list (map span (take (k - Suc i) (drop (Suc i) lines)))"
  have sm: "sum_list (map span (take (k - i) (drop i lines))) = span (lines ! i) + ?rest"
    by (simp add: dr tk)
  have nonneg: "0 \<le> ?rest"
    by (rule sum_list_nonneg) (auto simp: span_def)
  have miss: "\<not> cur + (int (length (lines ! i)) + 1) > offset"
    using Suc.prems(3) sm nonneg by (simp add: span_def)
  have "offsetToPosition_loop lines offset i cur
          = offsetToPosition_loop lines offset (Suc i) (cur + span (lines ! i))"
    using il miss by (simp add: span_def offsetToPosition_loop.simps [of lines offset i cur])
  also have "\<dots> = \<lparr>line = int k + 1,
                     column = offset - (cur + span (lines ! i) + ?rest) + 1\<rparr>"
    using Suc.hyps(1) [OF d, of "cur + span (lines ! i)"] lt Suc.prems sm by simp
  finally show ?case by (simp add: sm add.assoc)
qed

lemma offsetToPosition_loop_miss:
  "cur + sum_list (map span (drop i lines)) \<le> offset \<Longrightarrow>
   offsetToPosition_loop lines offset i cur = \<lparr>line = int (length lines), column = 1\<rparr>"
proof (induction "length lines - i" arbitrary: i cur)
  case 0
  then show ?case by (simp add: offsetToPosition_loop.simps [of lines offset i cur])
next
  case (Suc d)
  then have il: "i < length lines" and d: "d = length lines - Suc i" by auto
  have dr: "drop i lines = lines ! i # drop (Suc i) lines"
    using il by (simp add: Cons_nth_drop_Suc)
  have nonneg: "0 \<le> sum_list (map span (drop (Suc i) lines))"
    by (rule sum_list_nonneg) (auto simp: span_def)
  have miss: "\<not> cur + (int (length (lines ! i)) + 1) > offset"
    using Suc.prems dr nonneg by (simp add: span_def)
  have "offsetToPosition_loop lines offset i cur
          = offsetToPosition_loop lines offset (Suc i) (cur + span (lines ! i))"
    using il miss by (simp add: span_def offsetToPosition_loop.simps [of lines offset i cur])
  also have "\<dots> = \<lparr>line = int (length lines), column = 1\<rparr>"
    using Suc.hyps(1) [OF d, of "cur + span (lines ! i)"] Suc.prems dr by simp
  finally show ?case .
qed

lemma exampleText_lines: "js_split newline exampleText = [''a'', ''bc'']"
  by (simp add: exampleText_def newline_def)

text \<open>
  C1. Round trip: for every text and every 1-based position within its bounds, converting
  the position to an offset and the offset back gives the position again.
\<close>

theorem offsetToPosition_positionToOffset:
  assumes "inBounds content ln col"
  shows "offsetToPosition content (positionToOffset content ln col)
           = \<lparr>line = ln, column = col\<rparr>"
proof -
  let ?ls = "js_split newline content"
  let ?k = "nat (ln - 1)"
  from assms have k: "?k < length ?ls" and lnk: "ln - 1 = int ?k"
    and col: "1 \<le> col" "col \<le> span (?ls ! ?k)"
    by (auto simp: inBounds_def span_def)
  let ?s = "sum_list (map span (take ?k ?ls))"
  have off: "positionToOffset content ln col = ?s + (col - 1)"
    using positionToOffset_loop_sum [of 0 ?k ?ls ln 0] k lnk
    by (simp add: positionToOffset_def)
  have "offsetToPosition_loop ?ls (?s + (col - 1)) 0 0
          = \<lparr>line = int ?k + 1, column = (?s + (col - 1)) - (0 + ?s) + 1\<rparr>"
    using offsetToPosition_loop_hit [of 0 ?k ?ls 0 "?s + (col - 1)"] k col by simp
  then show ?thesis
    using lnk by (simp add: offsetToPosition_def off)
qed

theorem offsetToPosition_positionToOffset_witness:
  "inBounds exampleText 2 3
   \<and> offsetToPosition exampleText (positionToOffset exampleText 2 3)
       = \<lparr>line = 2, column = 3\<rparr>"
proof -
  have h: "inBounds exampleText 2 3"
    by (simp add: inBounds_def exampleText_lines)
  show ?thesis
    using h offsetToPosition_positionToOffset [OF h] by simp
qed

text \<open>
  C9. Clamp: for every text and every offset greater than the length of the text, the
  position returned is column 1 of the line numbered by the count of lines of the text.
\<close>

theorem offsetToPosition_clamp:
  assumes "int (length content) < offset"
  shows "offsetToPosition content offset
           = \<lparr>line = int (length (js_split newline content)), column = 1\<rparr>"
  using offsetToPosition_loop_miss [of 0 0 "js_split newline content" offset] assms
  by (simp add: offsetToPosition_def js_split_total_span)

theorem offsetToPosition_clamp_witness:
  "int (length exampleText) < 7
   \<and> offsetToPosition exampleText 7 = \<lparr>line = 2, column = 1\<rparr>"
proof -
  have h: "int (length exampleText) < 7"
    by (simp add: exampleText_def)
  show ?thesis
    using h offsetToPosition_clamp [OF h] by (simp add: exampleText_lines)
qed

section \<open>Properties of the document overlay\<close>

lemma storedVersion_updateDocument:
  "storedVersion (updateDocument rt fs st filePath content) (resolve (cwd rt) filePath)
     = storedVersion st (resolve (cwd rt) filePath) + 1"
  by (simp add: updateDocument_def storedVersion_def Let_def)

lemma getFileContent_updateDocument:
  "getFileContent rt fs (updateDocument rt fs st filePath content) filePath = Inr content"
  by (simp add: updateDocument_def getFileContent_def Let_def update_conv')

text \<open>
  C3. Overlay store: right after \<open>updateDocument f c\<close>, \<open>getFileContent f\<close> returns
  \<open>c\<close>; every \<open>updateDocument\<close> of \<open>f\<close> adds one to the version stored for \<open>f\<close>, so the
  version token the engine is given strictly increases; a file never overlaid has version
  0 and its first write makes it 1. The version is kept under the resolved path of \<open>f\<close>.
\<close>

theorem updateDocument_overlay:
  "getFileContent rt fs (updateDocument rt fs st f c) f = Inr c
   \<and> storedVersion (updateDocument rt fs st f c) (resolve (cwd rt) f)
       = storedVersion st (resolve (cwd rt) f) + 1
   \<and> getScriptVersion st (resolve (cwd rt) f)
       < getScriptVersion (updateDocument rt fs st f c) (resolve (cwd rt) f)
   \<and> (documentVersions st (resolve (cwd rt) f) = None \<longrightarrow>
        storedVersion st (resolve (cwd rt) f) = 0
        \<and> storedVersion (updateDocument rt fs st f c) (resolve (cwd rt) f) = 1)"
  using storedVersion_updateDocument [of rt fs st f c]
    getFileContent_updateDocument [of rt fs st f c]
  by (simp add: getScriptVersion_def storedVersion_def)

theorem updateDocument_overlay_witness:
  "documentVersions emptyState (resolve (cwd exampleRuntime) ''src/a.ts'') = None
   \<and> getFileContent exampleRuntime exampleFs
        (updateDocument exampleRuntime exampleFs emptyState ''src/a.ts'' ''let a = 2'')
        ''src/a.ts''
       = Inr ''let a = 2''
   \<and> storedVersion
        (updateDocument exampleRuntime exampleFs emptyState ''src/a.ts'' ''let a = 2'')
        (resolve (cwd exampleRuntime) ''src/a.ts'') = 1"
proof -
  have h: "documentVersions emptyState (resolve (cwd exampleRuntime) ''src/a.ts'') = None"
    by (simp add: emptyState_def)
  show ?thesis
    using h updateDocument_overlay
              [of exampleRuntime exampleFs emptyState "''src/a.ts''" "''let a = 2''"]
    by blast
qed

section \<open>Properties of project root resolution\<close>

lemma ancestors_not_Nil: "ancestors dir \<noteq> []"
  by (simp add: ancestors.simps [of dir])

lemma ancestors_step:
  "dir \<noteq> dirname dir \<Longrightarrow> ancestors dir = dir # ancestors (dirname dir)"
  by (simp add: ancestors.simps [of dir])

lemma ancestors_top: "dir = dirname dir \<Longrightarrow> ancestors dir = [dir]"
  by (simp add: ancestors.simps [of dir])

text \<open>
  The list holds the successive parents in order; its last entry is the top directory and
  no earlier entry is.
\<close>

lemma ancestors_nth: "n < length (ancestors dir) \<Longrightarrow> ancestors dir ! n = (dirname ^^ n) dir"
proof (induction dir arbitrary: n rule: ancestors.induct)
  case (1 dir)
  show ?case
  proof (cases "dir \<noteq> dirname dir")
    case True
    note w = ancestors_step [OF True]
    show ?thesis
    proof (cases n)
      case 0
      then show ?thesis by (simp add: w)
    next
      case (Suc m)
      with "1.prems" w have "m < length (ancestors (dirname dir))" by simp
      from "1.IH" [OF True this] show ?thesis by (simp add: w Suc funpow_swap1)
    qed
  next
    case False
    then have "ancestors dir = [dir]" by (simp add: ancestors_top)
    with "1.prems" show ?thesis by simp
  qed
qed

lemma ancestors_last_top: "dirname (last (ancestors dir)) = last (ancestors dir)"
proof (induction dir rule: ancestors.induct)
  case (1 dir)
  show ?case
  proof (cases "dir \<noteq> dirname dir")
    case True
    from "1.IH" [OF True] show ?thesis
      by (simp add: ancestors_step [OF True] ancestors_not_Nil)
  next
    case False
    then show ?thesis by (simp add: ancestors_top)
  qed
qed

lemma ancestors_butlast_step:
  "butlast (ancestors dir)
     = (if dir \<noteq> dirname dir then dir # butlast (ancestors (dirname dir)) else [])"
  by (simp add: ancestors.simps [of dir] ancestors_not_Nil)

lemma ancestors_butlast_not_top:
  "d \<in> set (butlast (ancestors dir)) \<Longrightarrow> d \<noteq> dirname d"
proof (induction dir rule: ancestors.induct)
  case (1 dir)
  show ?case
  proof (cases "dir \<noteq> dirname dir")
    case True
    with "1.prems" have "d = dir \<or> d \<in> set (butlast (ancestors (dirname dir)))"
      by (simp add: ancestors_butlast_step [of dir])
    then show ?thesis using True "1.IH" [OF True] by auto
  next
    case False
    with "1.prems" show ?thesis by (simp add: ancestors_butlast_step [of dir])
  qed
qed

text \<open>
  What the loop does: it examines every directory of the list but the last, the
  filesystem root, and returns the first with a marker.
\<close>

lemma findProjectRoot_loop_examined:
  "findProjectRoot_loop fs filePath dir
     = (case find (hasMarker fs) (butlast (ancestors dir)) of
          Some found \<Rightarrow> found
        | None \<Rightarrow> dirname filePath)"
proof (induction dir rule: ancestors.induct)
  case (1 dir)
  show ?case
  proof (cases "dir \<noteq> dirname dir")
    case True
    then have w: "butlast (ancestors dir) = dir # butlast (ancestors (dirname dir))"
      by (simp add: ancestors_butlast_step [of dir])
    show ?thesis
    proof (cases "hasMarker fs dir")
      case True
      then show ?thesis using \<open>dir \<noteq> dirname dir\<close>
        by (auto simp: w hasMarker_def findProjectRoot_loop.simps [of fs filePath dir])
    next
      case False
      then have "findProjectRoot_loop fs filePath dir
                  = findProjectRoot_loop fs filePath (dirname dir)"
        using True by (simp add: hasMarker_def findProjectRoot_loop.simps [of fs filePath dir])
      then show ?thesis using "1.IH" [OF True] False by (simp add: w)
    qed
  next
    case False
    then show ?thesis
      by (simp add: ancestors_butlast_step [of dir]
            findProjectRoot_loop.simps [of fs filePath dir])
  qed
qed

lemma findProjectRoot_examined:
  "findProjectRoot fs filePath
     = (case find (hasMarker fs) (butlast (ancestors (dirname filePath))) of
          Some found \<Rightarrow> found
        | None \<Rightarrow> dirname filePath)"
  by (simp add: findProjectRoot_def findProjectRoot_loop_examined)

lemma find_snoc:
  "find P (xs @ [x])
     = (case find P xs of Some y \<Rightarrow> Some y | None \<Rightarrow> if P x then Some x else None)"
  by (induction xs) auto

lemma find_ancestors:
  "find P (ancestors dir)
     = (case find P (butlast (ancestors dir)) of
          Some y \<Rightarrow> Some y
        | None \<Rightarrow> if P (last (ancestors dir)) then Some (last (ancestors dir)) else None)"
proof -
  have "ancestors dir = butlast (ancestors dir) @ [last (ancestors dir)]"
    using ancestors_not_Nil [of dir] by simp
  then have "find P (ancestors dir) = find P (butlast (ancestors dir) @ [last (ancestors dir)])"
    by simp
  then show ?thesis by (simp only: find_snoc)
qed

lemma rootOnly_ancestors: "ancestors (dirname ''/a/b.ts'') = [''/a'', ''/'']"
  by code_simp

lemma rootOnly_markers: "\<not> hasMarker rootOnlyFs ''/a''" "hasMarker rootOnlyFs ''/''"
  by code_simp+

lemma rootOnly_found: "findProjectRoot rootOnlyFs ''/a/b.ts'' = ''/a''"
  by code_simp

lemma rootOnly_nearest: "nearestMarked rootOnlyFs ''/a/b.ts'' = ''/''"
  by (simp add: nearestMarked_def rootOnly_ancestors rootOnly_markers)

text \<open>
  C6, as stated, fails: for the file \<^verbatim>\<open>/a/b.ts\<close> on a disk whose only marker is
  \<^verbatim>\<open>/package.json\<close>, the nearest directory with a marker is the filesystem root
  \<^verbatim>\<open>/\<close>, and \<open>findProjectRoot\<close> returns \<^verbatim>\<open>/a\<close>, which has none: the loop ends on
  reaching the root, before examining it.
\<close>

theorem findProjectRoot_nearest_counterexample:
  "findProjectRoot rootOnlyFs ''/a/b.ts'' \<noteq> nearestMarked rootOnlyFs ''/a/b.ts''"
  by (simp add: rootOnly_found rootOnly_nearest)

lemma example_nearest:
  "find (hasMarker exampleFs) (ancestors (dirname ''/p/src/a.ts'')) = Some ''/p''"
  "find (hasMarker exampleFs) (ancestors (dirname ''/x/y.ts'')) = None"
  by code_simp+

lemma example_dirnames: "''/p'' \<noteq> dirname ''/p''" "dirname ''/x/y.ts'' = ''/x''"
  by code_simp+

text \<open>
  C6, amended. For every file path: when the nearest directory with a
  \<^verbatim>\<open>tsconfig.json\<close> or a \<^verbatim>\<open>package.json\<close>, among the directory of the file and its
  parents up to the filesystem root, is not the filesystem root, or is the directory of the
  file itself, \<open>findProjectRoot\<close> returns it; when none of these directories, the
  filesystem root included, has a marker, it returns the directory of the file.
\<close>

theorem findProjectRoot_nearest:
  "(\<forall>found. find (hasMarker fs) (ancestors (dirname filePath)) = Some found
             \<and> (found \<noteq> dirname found \<or> found = dirname filePath)
             \<longrightarrow> findProjectRoot fs filePath = found)
   \<and> (find (hasMarker fs) (ancestors (dirname filePath)) = None
       \<longrightarrow> findProjectRoot fs filePath = dirname filePath)"
proof (intro conjI allI impI)
  fix found
  assume a: "find (hasMarker fs) (ancestors (dirname filePath)) = Some found
             \<and> (found \<noteq> dirname found \<or> found = dirname filePath)"
  show "findProjectRoot fs filePath = found"
  proof (cases "find (hasMarker fs) (butlast (ancestors (dirname filePath)))")
    case (Some y)
    with a have "y = found" by (simp add: find_ancestors [of _ "dirname filePath"])
    with Some show ?thesis by (simp add: findProjectRoot_examined)
  next
    case None
    with a have "found = last (ancestors (dirname filePath))"
      by (simp add: find_ancestors [of _ "dirname filePath"] split: if_splits)
    then have "found = dirname found" using ancestors_last_top [of "dirname filePath"] by simp
    with a have "found = dirname filePath" by simp
    with None show ?thesis by (simp add: findProjectRoot_examined)
  qed
next
  assume "find (hasMarker fs) (ancestors (dirname filePath)) = None"
  then have "find (hasMarker fs) (butlast (ancestors (dirname filePath))) = None"
    by (simp add: find_ancestors [of _ "dirname filePath"] split: option.splits)
  then show "findProjectRoot fs filePath = dirname filePath"
    by (simp add: findProjectRoot_examined)
qed

theorem findProjectRoot_nearest_witness:
  "find (hasMarker exampleFs) (ancestors (dirname ''/p/src/a.ts'')) = Some ''/p''
   \<and> ''/p'' \<noteq> dirname ''/p''
   \<and> findProjectRoot exampleFs ''/p/src/a.ts'' = ''/p''
   \<and> find (hasMarker exampleFs) (ancestors (dirname ''/x/y.ts'')) = None
   \<and> findProjectRoot exampleFs ''/x/y.ts'' = ''/x''"
proof -
  have "findProjectRoot exampleFs ''/p/src/a.ts'' = ''/p''"
    using findProjectRoot_nearest [of exampleFs "''/p/src/a.ts''"]
      example_nearest(1) example_dirnames(1) by blast
  moreover have "findProjectRoot exampleFs ''/x/y.ts'' = ''/x''"
    using findProjectRoot_nearest [of exampleFs "''/x/y.ts''"]
      example_nearest(2) example_dirnames(2) by simp
  ultimately show ?thesis
    using example_nearest example_dirnames(1) by (intro conjI)
qed

section \<open>Properties of the session cache and of engine resolution\<close>

lemma getTypeScriptForProject_serviceCache:
  "serviceCache (fst (getTypeScriptForProject rt fs st r)) = serviceCache st"
  by (simp add: getTypeScriptForProject_def Let_def split: option.splits)

text \<open>Building or fetching the service of one root leaves the entries of the others.\<close>

lemma getLanguageService_other:
  assumes "r2 \<noteq> r1"
  shows "serviceCache (fst (getLanguageService rt fs st r1)) r2 = serviceCache st r2"
proof (cases "serviceCache st r1")
  case (Some service)
  then show ?thesis by (simp add: getLanguageService_def)
next
  case None
  obtain st1 binding where g: "getTypeScriptForProject rt fs st r1 = (st1, binding)"
    by (cases "getTypeScriptForProject rt fs st r1")
  then have "serviceCache st1 = serviceCache st"
    using getTypeScriptForProject_serviceCache [of rt fs st r1] by simp
  then show ?thesis using None assms
    by (simp add: getLanguageService_def g Let_def split: prod.splits)
qed

lemma getLanguageService_cached:
  "serviceCache (fst (getLanguageService rt fs st r)) r
     = Some (snd (getLanguageService rt fs st r))"
proof (cases "serviceCache st r")
  case (Some service)
  then show ?thesis by (simp add: getLanguageService_def)
next
  case None
  then show ?thesis
    by (simp add: getLanguageService_def Let_def split: prod.splits)
qed

lemma getServiceForFile_steps:
  "getServiceForFile rt fs st filePath =
     (let absPath = resolve (cwd rt) filePath;
          r1 = findProjectRoot fs absPath;
          evicted = invalidate (registerFile st r1 absPath) r1
      in (fst (getLanguageService rt fs evicted r1),
          snd (getLanguageService rt fs evicted r1), absPath, r1))"
  by (simp add: getServiceForFile_def Let_def split: prod.splits)

lemma twoProjects_cached:
  "map_option hostProjectRoot (serviceCache twoProjects ''/p'') = Some ''/p''"
  "map_option hostProjectRoot (serviceCache twoProjects ''/q'') = Some ''/q''"
  by code_simp+

lemma twoProjects_bindings:
  "map_option source (tsModuleCache twoProjects ''/p'') = Some Project"
  "map_option source (tsModuleCache twoProjects ''/q'') = Some Bundled"
  by code_simp+

text \<open>
  C7. Frame of file registration: a query on a file of root \<open>r1\<close> registers the file,
  evicts the session of \<open>r1\<close> and builds it anew; for every other root \<open>r2\<close> the cache
  entry stays what it was, in the state after the eviction and in the state after the
  query.
\<close>

theorem getServiceForFile_frame:
  assumes "r2 \<noteq> findProjectRoot fs (resolve (cwd rt) filePath)"
  shows "(let absPath = resolve (cwd rt) filePath;
              r1 = findProjectRoot fs absPath;
              evicted = invalidate (registerFile st r1 absPath) r1
          in serviceCache evicted r1 = None
             \<and> serviceCache evicted r2 = serviceCache st r2
             \<and> getServiceForFile rt fs st filePath
                 = (fst (getLanguageService rt fs evicted r1),
                    snd (getLanguageService rt fs evicted r1), absPath, r1)
             \<and> serviceCache (fst (getServiceForFile rt fs st filePath)) r2
                 = serviceCache st r2
             \<and> serviceCache (fst (getServiceForFile rt fs st filePath)) r1
                 = Some (fst (snd (getServiceForFile rt fs st filePath))))"
proof -
  define absPath where "absPath = resolve (cwd rt) filePath"
  define r1 where "r1 = findProjectRoot fs absPath"
  define evicted where "evicted = invalidate (registerFile st r1 absPath) r1"
  from assms have ne: "r2 \<noteq> r1" by (simp add: r1_def absPath_def)
  have m1: "serviceCache evicted r1 = None"
    by (simp add: evicted_def invalidate_def)
  have m2: "serviceCache evicted r2 = serviceCache st r2"
    using ne by (simp add: evicted_def invalidate_def registerFile_def)
  have u: "getServiceForFile rt fs st filePath
        = (fst (getLanguageService rt fs evicted r1),
           snd (getLanguageService rt fs evicted r1), absPath, r1)"
    by (simp add: getServiceForFile_steps Let_def evicted_def r1_def absPath_def)
  have f2: "serviceCache (fst (getServiceForFile rt fs st filePath)) r2 = serviceCache st r2"
    using getLanguageService_other [OF ne, of rt fs evicted] m2 by (simp add: u)
  have f1: "serviceCache (fst (getServiceForFile rt fs st filePath)) r1
        = Some (fst (snd (getServiceForFile rt fs st filePath)))"
    using getLanguageService_cached [of rt fs evicted r1] by (simp add: u)
  from m1 m2 u f2 f1 show ?thesis
    unfolding Let_def evicted_def [symmetric] r1_def [symmetric] absPath_def [symmetric]
    by (intro conjI)
qed

theorem getServiceForFile_frame_witness:
  "''/q'' \<noteq> findProjectRoot exampleFs (resolve (cwd exampleRuntime) ''/p/src/a.ts'')
   \<and> serviceCache twoProjects ''/p'' \<noteq> None
   \<and> serviceCache twoProjects ''/q'' \<noteq> None
   \<and> serviceCache
        (fst (getServiceForFile exampleRuntime exampleFs twoProjects ''/p/src/a.ts'')) ''/q''
       = serviceCache twoProjects ''/q''"
proof -
  have h: "''/q'' \<noteq> findProjectRoot exampleFs (resolve (cwd exampleRuntime) ''/p/src/a.ts'')"
    by code_simp
  have c: "serviceCache twoProjects ''/p'' \<noteq> None" "serviceCache twoProjects ''/q'' \<noteq> None"
    using twoProjects_cached by auto
  show ?thesis
    using h c getServiceForFile_frame [OF h, of twoProjects]
    unfolding Let_def by blast
qed

text \<open>
  C8. Engine resolution for a root without a cached binding: when the project has its own
  installation and it loads, the binding is that module with source "project"; when the
  installation is absent or loading fails, the binding is the bundled module with source
  "bundled", and nothing is raised (the function has a result in every case). The binding
  is cached for the root, the next resolution answers from the cache, and an overlay write
  leaves the cache of bindings as it is.
\<close>

theorem getTypeScriptForProject_binding:
  assumes "tsModuleCache st r = None"
  shows "(\<forall>localTs.
            existsSync fs (join [r, ''node_modules'', ''typescript''])
            \<and> requireTypescript rt fs (join [r, ''package.json'']) = Some localTs
            \<longrightarrow> snd (getTypeScriptForProject rt fs st r)
                  = \<lparr>ts = localTs, version = moduleVersion localTs, source = Project\<rparr>)
    \<and> (\<not> existsSync fs (join [r, ''node_modules'', ''typescript''])
        \<or> requireTypescript rt fs (join [r, ''package.json'']) = None
        \<longrightarrow> snd (getTypeScriptForProject rt fs st r)
              = \<lparr>ts = bundledTs rt, version = moduleVersion (bundledTs rt),
                 source = Bundled\<rparr>)
    \<and> tsModuleCache (fst (getTypeScriptForProject rt fs st r))
        = (tsModuleCache st)(r \<mapsto> snd (getTypeScriptForProject rt fs st r))
    \<and> getTypeScriptForProject rt fs (fst (getTypeScriptForProject rt fs st r)) r
        = getTypeScriptForProject rt fs st r
    \<and> tsModuleCache (updateDocument rt fs (fst (getTypeScriptForProject rt fs st r)) f c)
        = tsModuleCache (fst (getTypeScriptForProject rt fs st r))"
proof -
  have upd: "\<And>s. tsModuleCache (updateDocument rt fs s f c) = tsModuleCache s"
    by (simp add: updateDocument_def Let_def)
  show ?thesis
    using assms
    by (auto simp: getTypeScriptForProject_def loadLocalTypeScript_def upd Let_def
             split: option.splits)
qed

theorem getTypeScriptForProject_binding_witness:
  "tsModuleCache emptyState ''/p'' = None
   \<and> existsSync exampleFs (join [''/p'', ''node_modules'', ''typescript''])
   \<and> requireTypescript exampleRuntime exampleFs (join [''/p'', ''package.json''])
       = Some (exampleTs\<lparr>moduleVersion := ''4.9.5''\<rparr>)
   \<and> source (snd (getTypeScriptForProject exampleRuntime exampleFs emptyState ''/p''))
       = Project
   \<and> tsModuleCache emptyState ''/q'' = None
   \<and> \<not> existsSync exampleFs (join [''/q'', ''node_modules'', ''typescript''])
   \<and> source (snd (getTypeScriptForProject exampleRuntime exampleFs emptyState ''/q''))
       = Bundled"
proof -
  have h: "tsModuleCache emptyState ''/p'' = None" "tsModuleCache emptyState ''/q'' = None"
    by (simp_all add: emptyState_def)
  have p: "existsSync exampleFs (join [''/p'', ''node_modules'', ''typescript''])"
    by code_simp
  have l: "requireTypescript exampleRuntime exampleFs (join [''/p'', ''package.json''])
             = Some (exampleTs\<lparr>moduleVersion := ''4.9.5''\<rparr>)"
  proof -
    have "join [''/p'', ''package.json''] = ''/p/package.json''" by code_simp
    then show ?thesis by (simp add: exampleRuntime_def)
  qed
  have q: "\<not> existsSync exampleFs (join [''/q'', ''node_modules'', ''typescript''])"
    by code_simp
  have "snd (getTypeScriptForProject exampleRuntime exampleFs emptyState ''/p'')
          = \<lparr>ts = exampleTs\<lparr>moduleVersion := ''4.9.5''\<rparr>,
             version = moduleVersion (exampleTs\<lparr>moduleVersion := ''4.9.5''\<rparr>),
             source = Project\<rparr>"
    using getTypeScriptForProject_binding [OF h(1), of exampleFs exampleRuntime] p l by blast
  then have sp: "source (snd (getTypeScriptForProject exampleRuntime exampleFs emptyState ''/p''))
                   = Project" by simp
  have "snd (getTypeScriptForProject exampleRuntime exampleFs emptyState ''/q'')
          = \<lparr>ts = bundledTs exampleRuntime, version = moduleVersion (bundledTs exampleRuntime),
             source = Bundled\<rparr>"
    using getTypeScriptForProject_binding [OF h(2), of exampleFs exampleRuntime] q by blast
  then have sq: "source (snd (getTypeScriptForProject exampleRuntime exampleFs emptyState ''/q''))
                   = Bundled" by simp
  from h p l q sp sq show ?thesis by (intro conjI)
qed

section \<open>Workspace switch\<close>

text \<open>
  C5. Workspace switch: every call of the switch-workspace operation on an existing
  directory leaves no cached session and no cached engine binding, whatever was cached
  before.
\<close>

theorem switch_workspace_clears:
  assumes "isDirectory fs (resolve (cwd rt) inputPath)"
  shows "serviceCache (fst (switch_workspace rt fs st inputPath)) = Map.empty
    \<and> tsModuleCache (fst (switch_workspace rt fs st inputPath)) = Map.empty"
  using assms
  by (auto simp: switch_workspace_def Let_def existsSync_def isDirectory_def
        setActiveWorkspace_def clearAllCaches_def split: sum.splits prod.splits)

theorem switch_workspace_clears_witness:
  "isDirectory exampleFs (resolve (cwd exampleRuntime) ''/q'')
   \<and> serviceCache twoProjects ''/p'' \<noteq> None \<and> serviceCache twoProjects ''/q'' \<noteq> None
   \<and> tsModuleCache twoProjects ''/p'' \<noteq> None \<and> tsModuleCache twoProjects ''/q'' \<noteq> None
   \<and> serviceCache (fst (switch_workspace exampleRuntime exampleFs twoProjects ''/q''))
       = Map.empty
   \<and> tsModuleCache (fst (switch_workspace exampleRuntime exampleFs twoProjects ''/q''))
       = Map.empty"
proof -
  have h: "isDirectory exampleFs (resolve (cwd exampleRuntime) ''/q'')"
    by code_simp
  have c: "serviceCache twoProjects ''/p'' \<noteq> None" "serviceCache twoProjects ''/q'' \<noteq> None"
    "tsModuleCache twoProjects ''/p'' \<noteq> None" "tsModuleCache twoProjects ''/q'' \<noteq> None"
    using twoProjects_cached twoProjects_bindings by auto
  show ?thesis
    using h c switch_workspace_clears [OF h, of twoProjects] by blast
qed

section \<open>Properties of applying file changes\<close>

lemma applyFileChanges_loop_deleted:
  "applyFileChanges_loop fs st res changes = (fs', st', Inr res')
     \<Longrightarrow> deleted res' = deleted res"
proof (induction changes arbitrary: fs st res)
  case Nil
  then show ?case by simp
next
  case (Cons fileChange changes)
  then show ?case
    by (fastforce simp: Let_def split: if_splits option.splits)
qed

lemma writeFileSync_exists:
  "writeFileSync fs p c = Some fs1 \<Longrightarrow> existsSync fs q \<Longrightarrow> existsSync fs1 q"
  by (auto simp: writeFileSync_def existsSync_def split: if_splits)

lemma applyFileChanges_loop_exists:
  "applyFileChanges_loop fs st res changes = (fs', st', outcome) \<Longrightarrow> existsSync fs q
     \<Longrightarrow> existsSync fs' q"
proof (induction changes arbitrary: fs st res)
  case Nil
  then show ?case by simp
next
  case (Cons fileChange changes)
  show ?case
  proof (cases "isNewFile fileChange")
    case True
    show ?thesis
    proof (cases "writeFileSync fs (fileName fileChange)
                    (concat (map newText (textChanges fileChange)))")
      case None
      with True Cons.prems show ?thesis by (simp add: Let_def)
    next
      case (Some fs1)
      with True Cons.prems show ?thesis
        using Cons.IH writeFileSync_exists [OF Some] by (simp add: Let_def)
    qed
  next
    case False
    then show ?thesis using Cons.prems Cons.IH
      by (auto simp: Let_def split: if_splits option.splits dest: writeFileSync_exists)
  qed
qed

text \<open>
  The operation returns a result when no path of the changes is a directory or refuses
  the write.
\<close>

lemma applyFileChanges_loop_returns:
  assumes "\<forall>c \<in> set changes. \<not> isDirectory fs (fileName c) \<and> \<not> unwritable fs (fileName c)"
  shows "\<exists>fs' st' res'. applyFileChanges_loop fs st res changes = (fs', st', Inr res')"
  using assms
proof (induction changes arbitrary: fs st res)
  case Nil
  then show ?case by simp
next
  case (Cons c changes)
  have w: "\<And>content. writeFileSync fs (fileName c) content
             = Some (fs\<lparr>files := (files fs)(fileName c \<mapsto> content)\<rparr>)"
    using Cons.prems by (simp add: writeFileSync_def isDirectory_def)
  have keep: "\<And>content. \<forall>c' \<in> set changes.
       \<not> isDirectory (fs\<lparr>files := (files fs)(fileName c \<mapsto> content)\<rparr>) (fileName c')
       \<and> \<not> unwritable (fs\<lparr>files := (files fs)(fileName c \<mapsto> content)\<rparr>) (fileName c')"
    using Cons.prems by (simp add: isDirectory_def)
  have rd: "existsSync fs (fileName c) \<Longrightarrow> readFileSync fs (fileName c) \<noteq> None"
    using Cons.prems by (simp add: existsSync_def readFileSync_def isDirectory_def)
  show ?case
  proof (cases "isNewFile c")
    case True
    then show ?thesis using Cons.IH [OF keep] by (simp add: Let_def w)
  next
    case False
    show ?thesis
    proof (cases "existsSync fs (fileName c)")
      case True
      with rd obtain old where "readFileSync fs (fileName c) = Some old" by auto
      then show ?thesis using False True Cons.IH [OF keep] by (simp add: Let_def w)
    next
      case no: False
      have "\<forall>c' \<in> set changes. \<not> isDirectory fs (fileName c') \<and> \<not> unwritable fs (fileName c')"
        using Cons.prems by simp
      from Cons.IH [OF this] show ?thesis using False no by (simp add: Let_def)
    qed
  qed
qed

lemma exampleChanges_result:
  "snd (snd (applyFileChanges exampleFs emptyState exampleChanges))
     = Inr \<lparr>changedFiles = [''/p/src/a.ts''], created = [''/p/src/new.ts''], deleted = []\<rparr>"
  by code_simp

text \<open>
  C10. Applying file changes: for every list of changes, the result the operation returns
  has an empty list of deleted files, and every path that existed on disk before the
  operation exists after it, also when the operation fails on the way.
\<close>

theorem applyFileChanges_deleted:
  "(\<forall>res. snd (snd (applyFileChanges fs st changes)) = Inr res \<longrightarrow> deleted res = [])
   \<and> (\<forall>p. existsSync fs p \<longrightarrow> existsSync (fst (applyFileChanges fs st changes)) p)"
proof (intro conjI allI impI)
  fix res
  assume r: "snd (snd (applyFileChanges fs st changes)) = Inr res"
  obtain fs' st' where "applyFileChanges fs st changes = (fs', st', Inr res)"
    using r by (cases "applyFileChanges fs st changes") auto
  then show "deleted res = []"
    using applyFileChanges_loop_deleted
            [of fs st "\<lparr>changedFiles = [], created = [], deleted = []\<rparr>" changes fs' st' res]
    by (simp add: applyFileChanges_def)
next
  fix p
  assume e: "existsSync fs p"
  obtain fs' st' outcome where a: "applyFileChanges fs st changes = (fs', st', outcome)"
    by (cases "applyFileChanges fs st changes") auto
  then show "existsSync (fst (applyFileChanges fs st changes)) p"
    using applyFileChanges_loop_exists
            [of fs st "\<lparr>changedFiles = [], created = [], deleted = []\<rparr>" changes
                fs' st' outcome p] e
    by (simp add: applyFileChanges_def)
qed

theorem applyFileChanges_deleted_witness:
  "snd (snd (applyFileChanges exampleFs emptyState exampleChanges))
     = Inr \<lparr>changedFiles = [''/p/src/a.ts''], created = [''/p/src/new.ts''], deleted = []\<rparr>
   \<and> deleted \<lparr>changedFiles = [''/p/src/a.ts''], created = [''/p/src/new.ts''], deleted = []\<rparr>
       = []
   \<and> existsSync exampleFs ''/p/src/a.ts''
   \<and> existsSync (fst (applyFileChanges exampleFs emptyState exampleChanges)) ''/p/src/a.ts''"
proof -
  have e: "existsSync exampleFs ''/p/src/a.ts''" by code_simp
  show ?thesis
    using exampleChanges_result e
      applyFileChanges_deleted [of exampleFs emptyState exampleChanges]
    by simp
qed

section \<open>The compilation scope of a session\<close>

lemma set_fold_setAdd: "set (fold setAdd xs acc) = set xs \<union> set acc"
  by (induction xs arbitrary: acc) (auto simp: setAdd_def)

lemma distinct_fold_setAdd: "distinct acc \<Longrightarrow> distinct (fold setAdd xs acc)"
  by (induction xs arbitrary: acc) (auto simp: setAdd_def)

lemma set_newSet: "set (newSet xs) = set xs"
  by (simp add: newSet_def set_fold_setAdd)

lemma distinct_newSet: "distinct (newSet xs)"
  by (simp add: newSet_def distinct_fold_setAdd)

text \<open>What the host returns, as a set.\<close>

lemma getScriptFileNames_set:
  "set (getScriptFileNames st service)
     = set (hostRootFiles service) \<union> set (openFiles st (hostProjectRoot service))
       \<union> set (accessedList st (hostProjectRoot service))"
  by (simp add: getScriptFileNames_def set_newSet Un_assoc)

lemma startsWith_append: "startsWith f (r @ s) \<Longrightarrow> startsWith f r"
proof -
  assume "startsWith f (r @ s)"
  then have "take (length r + length s) f = r @ s" by (simp add: startsWith_def)
  then have "take (length r) (take (length r + length s) f) = r" by simp
  then show ?thesis by (simp add: startsWith_def min_def)
qed

lemma locatedUnder_startsWith: "locatedUnder root f \<Longrightarrow> startsWith f root"
  by (auto simp: locatedUnder_def startsWith_append split: if_splits)

lemma overlaid_names:
  "getScriptFileNames overlaidState overlaidService = [''/q/c.ts'', ''/q/b.ts'']"
  by code_simp

lemma overlaid_scope_member:
  "''/q/util.mts'' \<in> compilationScope overlaidState overlaidService"
  by code_simp

text \<open>
  C2, as stated, fails: the module file \<^verbatim>\<open>/q/util.mts\<close> is overlaid and lies under the
  root \<^verbatim>\<open>/q\<close>, so it belongs to the scope of invariant I1, and the host of the session
  of \<^verbatim>\<open>/q\<close> does not return it.
\<close>

theorem getScriptFileNames_scope_counterexample:
  "set (getScriptFileNames overlaidState overlaidService)
     \<noteq> compilationScope overlaidState overlaidService"
proof
  assume "set (getScriptFileNames overlaidState overlaidService)
            = compilationScope overlaidState overlaidService"
  then have "''/q/util.mts'' \<in> set (getScriptFileNames overlaidState overlaidService)"
    using overlaid_scope_member by simp
  then show False by (simp add: overlaid_names)
qed

text \<open>
  C2, amended. For every session and every state of the maps at the time of the call,
  the list that \<open>getScriptFileNames\<close> returns has no duplicates; it contains every root
  file of the session, every accessed file registered for its root, and every overlaid
  file under its root whose name ends in \<^verbatim>\<open>.ts\<close>, \<^verbatim>\<open>.tsx\<close>, \<^verbatim>\<open>.js\<close> or \<^verbatim>\<open>.jsx\<close>;
  and each file it contains is a root file, an accessed file of the root, or an overlaid
  file with such an ending whose path starts with the root.
\<close>

theorem getScriptFileNames_scope:
  "distinct (getScriptFileNames st service)
   \<and> set (hostRootFiles service) \<subseteq> set (getScriptFileNames st service)
   \<and> set (accessedList st (hostProjectRoot service)) \<subseteq> set (getScriptFileNames st service)
   \<and> (\<forall>f \<in> fst ` set (documentContents st).
         locatedUnder (hostProjectRoot service) f \<and> hasScriptExtension f
           \<longrightarrow> f \<in> set (getScriptFileNames st service))
   \<and> (\<forall>f \<in> set (getScriptFileNames st service).
         f \<in> set (hostRootFiles service)
         \<or> f \<in> set (accessedList st (hostProjectRoot service))
         \<or> (f \<in> fst ` set (documentContents st) \<and> hasScriptExtension f
             \<and> startsWith f (hostProjectRoot service)))"
proof -
  have d: "distinct (getScriptFileNames st service)"
    by (simp add: getScriptFileNames_def distinct_newSet)
  show ?thesis
    using d locatedUnder_startsWith
    by (auto simp: getScriptFileNames_set openFiles_def)
qed

theorem getScriptFileNames_scope_witness:
  "''/q/c.ts'' \<in> fst ` set (documentContents overlaidState)
   \<and> locatedUnder (hostProjectRoot overlaidService) ''/q/c.ts''
   \<and> hasScriptExtension ''/q/c.ts''
   \<and> ''/q/c.ts'' \<in> set (getScriptFileNames overlaidState overlaidService)
   \<and> ''/q/b.ts'' \<in> set (accessedList overlaidState (hostProjectRoot overlaidService))
   \<and> ''/q/b.ts'' \<in> set (getScriptFileNames overlaidState overlaidService)
   \<and> distinct (getScriptFileNames overlaidState overlaidService)"
proof -
  have h: "''/q/c.ts'' \<in> fst ` set (documentContents overlaidState)"
    "locatedUnder (hostProjectRoot overlaidService) ''/q/c.ts''"
    "hasScriptExtension ''/q/c.ts''"
    "''/q/b.ts'' \<in> set (accessedList overlaidState (hostProjectRoot overlaidService))"
    by code_simp+
  show ?thesis
    using h getScriptFileNames_scope [of overlaidState overlaidService] by blast
qed

section \<open>A configuration that cannot be read\<close>

text \<open>
  When the configuration file exists and the engine reports an error for it, the session is
  built with the default options, one error and no root files.
\<close>

lemma readProjectConfig_unreadable:
  assumes "existsSync fs (join [projectRoot, ''tsconfig.json''])"
    and "readConfigFile tsm fs (join [projectRoot, ''tsconfig.json'']) = Inl message"
  shows "readProjectConfig tsm fs projectRoot projectDtsFiles
           = (defaultCompilerOptions, [], [''Failed to read tsconfig.json: '' @ message])"
  using assms by (simp add: readProjectConfig_def Let_def)

text \<open>Without a configuration file the root files are the declaration files of the scan.\<close>

lemma readProjectConfig_absent:
  assumes "\<not> existsSync fs (join [projectRoot, ''tsconfig.json''])"
  shows "readProjectConfig tsm fs projectRoot projectDtsFiles
           = (defaultCompilerOptions, projectDtsFiles, [])"
  using assms by (simp add: readProjectConfig_def Let_def)

lemma getLanguageService_uncached:
  assumes "serviceCache st projectRoot = None"
  shows "getLanguageService rt fs st projectRoot =
     (let (st1, binding) = getTypeScriptForProject rt fs st projectRoot;
          projectDtsFiles = findDeclarationFiles fs projectRoot;
          (compilerOptions, rootFiles, configErrors) =
            readProjectConfig (ts binding) fs projectRoot projectDtsFiles;
          st2 = st1\<lparr>configCache := (configCache st1)(projectRoot \<mapsto>
                  \<lparr>options = compilerOptions, errors = configErrors,
                   fileNames = rootFiles, declarationFiles = projectDtsFiles,
                   detectedFrameworks = detectFrameworks fs projectRoot,
                   typescriptVersion = version binding,
                   typescriptSource = source binding\<rparr>)\<rparr>;
          service = \<lparr>hostProjectRoot = projectRoot, hostRootFiles = rootFiles,
                     hostCompilerOptions = compilerOptions, hostTs = ts binding\<rparr>
      in (st2\<lparr>serviceCache := (serviceCache st2)(projectRoot \<mapsto> service)\<rparr>, service))"
  using assms by (simp add: getLanguageService_def)

lemma exampleFs_declarations: "findDeclarationFiles exampleFs ''/p'' = [''/p/types/g.d.ts'']"
  by code_simp

text \<open>
  C4, what the code does: for every project root without a cached session whose
  \<^verbatim>\<open>tsconfig.json\<close> exists and is rejected by the engine, building the session raises
  nothing and records exactly one error, and the root files of the session are empty,
  whatever declaration files the scan found. The claim's fallback to the declaration
  files does not happen; the example is the project \<^verbatim>\<open>/p\<close>, where the scan finds
  \<^verbatim>\<open>/p/types/g.d.ts\<close>.
\<close>

theorem getLanguageService_malformed_config:
  assumes "serviceCache st projectRoot = None"
    and "existsSync fs (join [projectRoot, ''tsconfig.json''])"
    and "readConfigFile (ts (snd (getTypeScriptForProject rt fs st projectRoot))) fs
           (join [projectRoot, ''tsconfig.json'']) = Inl message"
  shows "hostRootFiles (snd (getLanguageService rt fs st projectRoot)) = []
    \<and> map_option errors (snd (getProjectConfig rt fs st projectRoot))
        = Some [''Failed to read tsconfig.json: '' @ message]
    \<and> map_option fileNames (snd (getProjectConfig rt fs st projectRoot)) = Some []
    \<and> map_option declarationFiles (snd (getProjectConfig rt fs st projectRoot))
        = Some (findDeclarationFiles fs projectRoot)"
proof -
  obtain st1 binding where g: "getTypeScriptForProject rt fs st projectRoot = (st1, binding)"
    by (cases "getTypeScriptForProject rt fs st projectRoot")
  have r: "readProjectConfig (ts binding) fs projectRoot (findDeclarationFiles fs projectRoot)
             = (defaultCompilerOptions, [], [''Failed to read tsconfig.json: '' @ message])"
    using readProjectConfig_unreadable [OF assms(2), of "ts binding" message] assms(3) g
    by simp
  show ?thesis
    by (simp add: getProjectConfig_def getLanguageService_uncached [OF assms(1)] g r Let_def)
qed

theorem getLanguageService_malformed_config_witness:
  "serviceCache emptyState ''/p'' = None
   \<and> existsSync exampleFs (join [''/p'', ''tsconfig.json''])
   \<and> readConfigFile
        (ts (snd (getTypeScriptForProject exampleRuntime exampleFs emptyState ''/p'')))
        exampleFs (join [''/p'', ''tsconfig.json'']) = Inl ''Closing brace expected.''
   \<and> findDeclarationFiles exampleFs ''/p'' = [''/p/types/g.d.ts'']
   \<and> hostRootFiles (snd (getLanguageService exampleRuntime exampleFs emptyState ''/p'')) = []
   \<and> map_option errors (snd (getProjectConfig exampleRuntime exampleFs emptyState ''/p''))
       = Some [''Failed to read tsconfig.json: Closing brace expected.'']
   \<and> map_option fileNames (snd (getProjectConfig exampleRuntime exampleFs emptyState ''/p''))
       = Some []"
proof -
  have h1: "serviceCache emptyState ''/p'' = None"
    by (simp add: emptyState_def)
  have h2: "existsSync exampleFs (join [''/p'', ''tsconfig.json''])"
    by code_simp
  have h3: "readConfigFile
              (ts (snd (getTypeScriptForProject exampleRuntime exampleFs emptyState ''/p'')))
              exampleFs (join [''/p'', ''tsconfig.json'']) = Inl ''Closing brace expected.''"
    by code_simp
  show ?thesis
    using h1 h2 h3 exampleFs_declarations
      getLanguageService_malformed_config [OF h1 h2 h3]
    by simp
qed

end
